theory Spec2Isabelle
  imports Main
begin

section \<open>JavaScript values used by the cache\<close>

text \<open>
  Durations (\<open>clearTime\<close>, \<open>cacheTime\<close>, \<open>refetchInterval\<close>) are JavaScript numbers.
  The code only compares them with \<open>0\<close>, with \<open>Infinity\<close> and with differences of
  \<open>Date.now()\<close> readings, tests their truthiness and adds them to such a difference, so a
  number is modelled as an integral amount of milliseconds or one of the three special values.
  \<open>Date.now()\<close> readings and the timestamps stored from them are \<open>int\<close>.
\<close>

datatype number = Finite int | Infinity | NegInfinity | NaN

text \<open>\<open>x < y\<close> for an integral left operand.\<close>

fun lt_number :: "int \<Rightarrow> number \<Rightarrow> bool" where
  "lt_number x (Finite y) = (x < y)"
| "lt_number x Infinity = True"
| "lt_number x NegInfinity = False"
| "lt_number x NaN = False"

text \<open>\<open>y > 0\<close>.\<close>

fun gt_zero :: "number \<Rightarrow> bool" where
  "gt_zero (Finite y) = (0 < y)"
| "gt_zero Infinity = True"
| "gt_zero NegInfinity = False"
| "gt_zero NaN = False"

text \<open>Truthiness of a number in a condition: \<open>0\<close> and \<open>NaN\<close> are falsy.\<close>

fun truthy :: "number \<Rightarrow> bool" where
  "truthy (Finite y) = (y \<noteq> 0)"
| "truthy Infinity = True"
| "truthy NegInfinity = True"
| "truthy NaN = False"

text \<open>\<open>x + y\<close> for an integral left operand.\<close>

fun plus_number :: "int \<Rightarrow> number \<Rightarrow> number" where
  "plus_number x (Finite y) = Finite (x + y)"
| "plus_number x Infinity = Infinity"
| "plus_number x NegInfinity = NegInfinity"
| "plus_number x NaN = NaN"

text \<open>
  A value that is thrown or that a promise rejects with: an \<open>Error\<close> object made by the cache
  itself (identified by its message) or any other value of the caller's. A field or an
  argument that may be \<open>undefined\<close> has an option type, \<open>None\<close> standing for \<open>undefined\<close>.
\<close>

datatype 'e thrown = ErrorObject string | Reason 'e

text \<open>
  The defined values a fetcher can produce and \<open>select\<close> can return. The code compares
  them with \<open>===\<close> (in \<open>updateState\<close>), which is not equality of content: \<open>NaN\<close> is
  strictly equal to nothing, not even to itself; any other primitive value (a number, a
  string, a boolean, \<open>null\<close>) is strictly equal to the primitive values of the same content
  (the two zeros count as one); an object (an array, for one) is strictly equal to itself
  only, so it carries its identity, a reference, beside its content \<open>'d\<close>. Two objects made
  at different times have different references, also when their contents are equal.
\<close>

datatype 'd jsval = NotANumber | Primitive 'd | Object nat 'd

fun strictEquals :: "'d jsval \<Rightarrow> 'd jsval \<Rightarrow> bool" where
  "strictEquals (Primitive x) (Primitive y) = (x = y)"
| "strictEquals (Object r x) (Object s y) = (r = s)"
| "strictEquals x y = False"

text \<open>\<open>x === y\<close> for two values that may be \<open>undefined\<close>.\<close>

fun strictEqualsOption :: "'d jsval option \<Rightarrow> 'd jsval option \<Rightarrow> bool" where
  "strictEqualsOption None None = True"
| "strictEqualsOption (Some x) (Some y) = strictEquals x y"
| "strictEqualsOption x y = False"


section \<open>QueryCache.ts: the state of a cache entry\<close>

datatype QueryStatus = Pending | Loading | Error | Success

record ('d, 'e, 'v) QueryCacheState =
  data :: "'d jsval option"
  error :: "'e thrown option"
  dataUpdatedAt :: int
  errorUpdatedAt :: int
  updatedAt :: int
  status :: QueryStatus
  variables :: 'v

text \<open>
  The state the store is created with, after the constructor has stored the variables.
\<close>

definition initialState :: "'v \<Rightarrow> ('d, 'e, 'v) QueryCacheState" where
  "initialState v =
     \<lparr>data = None, error = None, dataUpdatedAt = 0, errorUpdatedAt = 0, updatedAt = 0,
      status = Pending, variables = v\<rparr>"

text \<open>
  The partial states that \<open>startFetching\<close>, \<open>setData\<close> and \<open>setError\<close> hand to the store's
  \<open>setState\<close>, merged into the previous state. \<open>t\<close> is the reading of \<open>Date.now()\<close>
  (the two readings within one call are taken to be equal). \<open>setData\<close> takes a \<open>TData\<close>,
  which excludes \<open>undefined\<close>; \<open>setError\<close> takes \<open>any\<close>, so its argument may be \<open>undefined\<close>.
\<close>

definition startFetching_state ::
  "('d, 'e, 'v) QueryCacheState \<Rightarrow> ('d, 'e, 'v) QueryCacheState" where
  "startFetching_state s = s\<lparr>status := Loading\<rparr>"

definition setData_state ::
  "int \<Rightarrow> 'd jsval \<Rightarrow> ('d, 'e, 'v) QueryCacheState \<Rightarrow> ('d, 'e, 'v) QueryCacheState" where
  "setData_state t d s =
     s\<lparr>data := Some d, status := Success, updatedAt := t, dataUpdatedAt := t,
       errorUpdatedAt := 0, error := None\<rparr>"

definition setError_state ::
  "int \<Rightarrow> 'e thrown option \<Rightarrow> ('d, 'e, 'v) QueryCacheState \<Rightarrow> ('d, 'e, 'v) QueryCacheState" where
  "setError_state t e s =
     s\<lparr>error := e, status := Error, updatedAt := t, errorUpdatedAt := t\<rparr>"

text \<open>The states an entry's store can hold when only these three methods write it.\<close>

inductive reachable_state :: "('d, 'e, 'v) QueryCacheState \<Rightarrow> bool" where
  rs_initial: "reachable_state (initialState v)"
| rs_startFetching: "reachable_state s \<Longrightarrow> reachable_state (startFetching_state s)"
| rs_setData: "reachable_state s \<Longrightarrow> reachable_state (setData_state t d s)"
| rs_setError: "reachable_state s \<Longrightarrow> reachable_state (setError_state t e s)"


section \<open>Objects, the heap and the environment\<close>

text \<open>
  \<open>QueryCache\<close> and \<open>QueryObserver\<close> objects are mutable and shared (the Query's table and
  every observer of an entry hold the same object), so they live in a heap and are named
  by their address. A promise and a timer are named by their identifier.
\<close>

type_synonym addr = nat
type_synonym oid = nat
type_synonym pid = nat

text \<open>
  The two kinds of listener the code subscribes to an entry's store: the listener of the
  promise that \<open>fetch\<close> returns while the entry is loading, and the listener an observer
  installs in \<open>mount\<close>.
\<close>

datatype listener = Waiter pid | ObserverListener oid

text \<open>
  A \<open>QueryCache\<close> object. \<open>store\<close> and \<open>listeners\<close> are the state and the listener set of
  its zustand store (a JavaScript \<open>Set\<close>, kept in insertion order). The fetcher is a
  function reference \<open>'f\<close>; calling it is recorded in the world, and its promise settles
  later. \<open>onClear\<close> is the closure \<open>createCache\<close> passes; it is the function \<open>onClear\<close> below.
\<close>

record ('d, 'e, 'v, 'f) QueryCache =
  variablesHash :: string
  clearTime :: number
  usedCount :: int
  clearTimeoutId :: "nat option"
  fetcher :: 'f
  store :: "('d, 'e, 'v) QueryCacheState"
  listeners :: "listener list"

text \<open>Query.ts: a named fetcher and its table of entries, keyed by the variables' hash.\<close>

record 'f Query =
  name :: string
  query_fetcher :: 'f
  query_clearTime :: number
  caches :: "string \<rightharpoonup> addr"

record 'f QueryConstructorProps =
  props_name :: string
  props_fetcher :: 'f
  props_clearTime :: "number option"

definition DEFAULT_CLEAR_TIME :: number where
  "DEFAULT_CLEAR_TIME = Finite 300000"

text \<open>The constructor of \<open>Query\<close>.\<close>

definition newQuery :: "'f QueryConstructorProps \<Rightarrow> 'f Query" where
  "newQuery p =
     \<lparr>name = props_name p, query_fetcher = props_fetcher p,
      query_clearTime = (case props_clearTime p of None \<Rightarrow> DEFAULT_CLEAR_TIME | Some t \<Rightarrow> t),
      caches = Map.empty\<rparr>"

text \<open>QueryClient: the registry of queries by name.\<close>

record 'f QueryClient =
  queries :: "string \<rightharpoonup> 'f Query"

definition emptyClient :: "'f QueryClient" where
  "emptyClient = \<lparr>queries = Map.empty\<rparr>"

definition findQuery :: "string \<Rightarrow> 'f QueryClient \<Rightarrow> 'f Query option" where
  "findQuery queryName c = queries c queryName"

definition createQuery ::
  "'f QueryConstructorProps \<Rightarrow> 'f QueryClient \<Rightarrow> 'f Query \<times> 'f QueryClient" where
  "createQuery p c =
     (let query = newQuery p
      in (query, c\<lparr>queries := (queries c)(props_name p \<mapsto> query)\<rparr>))"

text \<open>
  QueryObserver: the published state, the effective props and the object. \<open>select\<close> may
  return \<open>undefined\<close>. Types are erased at run time, so the transformed data are values of
  the same universe, and the default \<open>select\<close> (a cast) is \<open>Some\<close>. The fields of the
  published state that share a name with a field of the entry's state or with a method
  carry the prefix \<open>obs_\<close>. \<open>selectCalls\<close> is not a field of the source: it records the
  arguments \<open>select\<close> has been called with, so that the calls can be counted.
\<close>

record ('d, 'e) QueryObserverState =
  obs_data :: "'d jsval option"
  obs_error :: "'e thrown option"
  originalData :: "'d jsval option"
  isSuccess :: bool
  isError :: bool
  isLoading :: bool
  isSettled :: bool
  isPending :: bool
  obs_isFresh :: bool
  obs_updatedAt :: int
  obs_dataUpdatedAt :: int
  obs_errorUpdatedAt :: int

record 'd ObserverProps =
  select :: "'d jsval \<Rightarrow> 'd jsval option"
  refetchInterval :: number
  cacheTime :: number
  refetchOnMount :: bool

record ('d, 'v) QueryObserverConstructorProps =
  cp_variables :: 'v
  cp_select :: "('d jsval \<Rightarrow> 'd jsval option) option"
  cp_refetchInterval :: "number option"
  cp_cacheTime :: "number option"
  cp_refetchOnMount :: "bool option"

record ('d, 'e) QueryObserver =
  cache :: addr
  unsubscribeStore :: "listener option"
  refetchTimeoutId :: "nat option"
  props :: "'d ObserverProps"
  ostate :: "('d, 'e) QueryObserverState"
  selectCalls :: "'d jsval list"

definition defaultProps :: "'d ObserverProps" where
  "defaultProps =
     \<lparr>select = Some, refetchInterval = Finite 0, cacheTime = Infinity, refetchOnMount = True\<rparr>"

definition pendingState :: "('d, 'e) QueryObserverState" where
  "pendingState =
     \<lparr>obs_data = None, obs_error = None, originalData = None, isSuccess = False,
      isError = False, isLoading = False, isSettled = False, isPending = False,
      obs_isFresh = False, obs_updatedAt = 0, obs_dataUpdatedAt = 0, obs_errorUpdatedAt = 0\<rparr>"

text \<open>
  Timers of \<open>window.setTimeout\<close>. The two callbacks the code registers: the eviction of an
  entry (\<open>unuse\<close>) and an observer's poll (\<open>setRefetchTimeout\<close>), each closed over the entry.
\<close>

datatype timer_callback = ClearCallback addr | RefetchCallback addr

record timer =
  callback :: timer_callback
  delay :: number

datatype ('d, 'e) promise =
  Unsettled | Resolved "'d jsval option" | Rejected "'e thrown option"

text \<open>
  The world: the clock, the one Query whose entries are considered, the heaps of entries
  and observers, the pending timers, the promises returned by \<open>fetch\<close>, the calls of
  \<open>fetch\<close> that await their fetcher's promise (\<open>inflight\<close> maps the promise of the call to
  the entry), and the log of fetcher invocations.
\<close>

record ('d, 'e, 'v, 'f) world =
  now :: int
  query :: "'f Query"
  heap :: "addr \<Rightarrow> ('d, 'e, 'v, 'f) QueryCache"
  nextAddr :: addr
  timers :: "nat \<rightharpoonup> timer"
  nextTimerId :: nat
  promises :: "pid \<Rightarrow> ('d, 'e) promise"
  nextPromiseId :: pid
  inflight :: "pid \<rightharpoonup> addr"
  fetcherCalls :: "('f \<times> 'v) list"
  observers :: "oid \<Rightarrow> ('d, 'e) QueryObserver"
  nextObserverId :: oid


section \<open>The environment: timers, promises, store subscriptions\<close>

text \<open>\<open>window.setTimeout\<close> returns a new identifier; \<open>clearTimeout\<close> forgets the timer.\<close>

definition setTimeout ::
  "timer_callback \<Rightarrow> number \<Rightarrow> ('d, 'e, 'v, 'f) world \<Rightarrow> nat \<times> ('d, 'e, 'v, 'f) world" where
  "setTimeout cb d w =
     (nextTimerId w,
      w\<lparr>timers := (timers w)(nextTimerId w \<mapsto> \<lparr>callback = cb, delay = d\<rparr>),
        nextTimerId := Suc (nextTimerId w)\<rparr>)"

definition clearTimeout :: "nat \<Rightarrow> ('d, 'e, 'v, 'f) world \<Rightarrow> ('d, 'e, 'v, 'f) world" where
  "clearTimeout tid w = w\<lparr>timers := (timers w)(tid := None)\<rparr>"

text \<open>
  A call of the async \<open>fetch\<close> makes a promise. \<open>settle\<close> is what \<open>resolve\<close> and \<open>reject\<close> of
  a promise do (only the first call has an effect); \<open>complete\<close> is the completion of the
  async function, which alone settles its promise.
\<close>

definition newPromise :: "('d, 'e, 'v, 'f) world \<Rightarrow> pid \<times> ('d, 'e, 'v, 'f) world" where
  "newPromise w =
     (nextPromiseId w,
      w\<lparr>promises := (promises w)(nextPromiseId w := Unsettled),
        nextPromiseId := Suc (nextPromiseId w)\<rparr>)"

definition settle ::
  "pid \<Rightarrow> ('d, 'e) promise \<Rightarrow> ('d, 'e, 'v, 'f) world \<Rightarrow> ('d, 'e, 'v, 'f) world" where
  "settle p outcome w =
     (if promises w p = Unsettled then w\<lparr>promises := (promises w)(p := outcome)\<rparr> else w)"

definition complete ::
  "pid \<Rightarrow> ('d, 'e) promise \<Rightarrow> ('d, 'e, 'v, 'f) world \<Rightarrow> ('d, 'e, 'v, 'f) world" where
  "complete p outcome w = w\<lparr>promises := (promises w)(p := outcome)\<rparr>"

text \<open>\<open>store.subscribe\<close> adds the listener to the set; the function it returns deletes it.\<close>

definition subscribe ::
  "addr \<Rightarrow> listener \<Rightarrow> ('d, 'e, 'v, 'f) world \<Rightarrow> ('d, 'e, 'v, 'f) world" where
  "subscribe a l w =
     w\<lparr>heap := (heap w)(a := (heap w a)
        \<lparr>listeners := (if l \<in> set (listeners (heap w a)) then listeners (heap w a)
                        else listeners (heap w a) @ [l])\<rparr>)\<rparr>"

definition unsubscribe ::
  "addr \<Rightarrow> listener \<Rightarrow> ('d, 'e, 'v, 'f) world \<Rightarrow> ('d, 'e, 'v, 'f) world" where
  "unsubscribe a l w =
     w\<lparr>heap := (heap w)(a := (heap w a)\<lparr>listeners := removeAll l (listeners (heap w a))\<rparr>)\<rparr>"


section \<open>QueryCache.ts: the methods of an entry\<close>

definition isFresh :: "addr \<Rightarrow> number \<Rightarrow> ('d, 'e, 'v, 'f) world \<Rightarrow> bool" where
  "isFresh a ct w = lt_number (now w - updatedAt (store (heap w a))) ct"

text \<open>
  QueryObserver.updateState, placed here because the store's listeners call it. The first
  function is the computation of \<open>transformedData\<close>, with the arguments of the calls of
  \<open>select\<close> it makes.
\<close>

definition transformData ::
  "('d, 'e) QueryObserver \<Rightarrow> ('d, 'e, 'v) QueryCacheState \<Rightarrow> ('d, 'e, 'v) QueryCacheState option
     \<Rightarrow> 'd jsval option \<times> 'd jsval list" where
  "transformData this st prevState =
     (case prevState of
        None \<Rightarrow> (None, [])
      | Some prev \<Rightarrow>
          if strictEqualsOption (data st) (data prev) then (obs_data (ostate this), [])
          else (case data st of
                  None \<Rightarrow> (None, [])
                | Some d \<Rightarrow> (select (props this) d, [d])))"

definition updateState ::
  "oid \<Rightarrow> ('d, 'e, 'v) QueryCacheState \<Rightarrow> ('d, 'e, 'v) QueryCacheState option
     \<Rightarrow> ('d, 'e, 'v, 'f) world \<Rightarrow> ('d, 'e, 'v, 'f) world" where
  "updateState ob st prevState w =
     (let this = observers w ob;
          transformedData = fst (transformData this st prevState);
          calls = snd (transformData this st prevState);
          success = (transformedData \<noteq> None);
          err = (error st \<noteq> None)
      in w\<lparr>observers := (observers w)(ob := this
           \<lparr>ostate :=
              \<lparr>obs_data = transformedData, obs_error = error st, originalData = data st,
               isSuccess = success, isError = err, isLoading = (status st = Loading),
               isSettled = (success \<or> err), isPending = (status st = Pending),
               obs_isFresh = isFresh (cache this) (cacheTime (props this)) w,
               obs_updatedAt = updatedAt st, obs_dataUpdatedAt = dataUpdatedAt st,
               obs_errorUpdatedAt = errorUpdatedAt st\<rparr>,
            selectCalls := selectCalls this @ calls\<rparr>)\<rparr>)"

text \<open>
  The store's \<open>setState\<close>: merge the partial state, then call every listener with the new
  and the previous state, in the order of subscription. The listener of an observer is the
  closure that \<open>mount\<close> creates when it subscribes, and whose unsubscribe function it
  stores at once in \<open>unsubscribeStore\<close>. While that field still has its initial value
  (\<open>noop\<close>, here \<open>None\<close>) the closure has not been created, so no listener set can hold it
  and nothing can call it: that case has no effect.
\<close>

fun callListener ::
  "listener \<Rightarrow> ('d, 'e, 'v) QueryCacheState \<Rightarrow> ('d, 'e, 'v) QueryCacheState
     \<Rightarrow> ('d, 'e, 'v, 'f) world \<Rightarrow> ('d, 'e, 'v, 'f) world" where
  "callListener (Waiter p) st prev w =
     (if status st = Success then settle p (Resolved (data st)) w
      else if status st = Error then settle p (Rejected (error st)) w
      else w)"
| "callListener (ObserverListener ob) st prev w =
     (if unsubscribeStore (observers w ob) = None then w
      else updateState ob st (Some prev) w)"

fun notify ::
  "listener list \<Rightarrow> ('d, 'e, 'v) QueryCacheState \<Rightarrow> ('d, 'e, 'v) QueryCacheState
     \<Rightarrow> ('d, 'e, 'v, 'f) world \<Rightarrow> ('d, 'e, 'v, 'f) world" where
  "notify [] st prev w = w"
| "notify (l # ls) st prev w = notify ls st prev (callListener l st prev w)"

definition setState ::
  "addr \<Rightarrow> (('d, 'e, 'v) QueryCacheState \<Rightarrow> ('d, 'e, 'v) QueryCacheState)
     \<Rightarrow> ('d, 'e, 'v, 'f) world \<Rightarrow> ('d, 'e, 'v, 'f) world" where
  "setState a partial w =
     (let prev = store (heap w a);
          st = partial prev
      in notify (listeners (heap w a)) st prev
           (w\<lparr>heap := (heap w)(a := (heap w a)\<lparr>store := st\<rparr>)\<rparr>))"

definition startFetching :: "addr \<Rightarrow> ('d, 'e, 'v, 'f) world \<Rightarrow> ('d, 'e, 'v, 'f) world" where
  "startFetching a w = setState a startFetching_state w"

definition setData :: "addr \<Rightarrow> 'd jsval \<Rightarrow> ('d, 'e, 'v, 'f) world \<Rightarrow> ('d, 'e, 'v, 'f) world" where
  "setData a d w = setState a (setData_state (now w) d) w"

definition setError ::
  "addr \<Rightarrow> 'e thrown option \<Rightarrow> ('d, 'e, 'v, 'f) world \<Rightarrow> ('d, 'e, 'v, 'f) world" where
  "setError a e w = setState a (setError_state (now w) e) w"

text \<open>
  \<open>onClear\<close>, as \<open>Query.createCache\<close> builds it: delete the entry's key from the table.
\<close>

definition onClear :: "addr \<Rightarrow> ('d, 'e, 'v, 'f) world \<Rightarrow> ('d, 'e, 'v, 'f) world" where
  "onClear a w =
     w\<lparr>query := (query w)\<lparr>caches := (caches (query w))(variablesHash (heap w a) := None)\<rparr>\<rparr>"

definition use :: "addr \<Rightarrow> ('d, 'e, 'v, 'f) world \<Rightarrow> ('d, 'e, 'v, 'f) world" where
  "use a w =
     (let w1 = w\<lparr>heap := (heap w)(a := (heap w a)\<lparr>usedCount := usedCount (heap w a) + 1\<rparr>)\<rparr>
      in case clearTimeoutId (heap w1 a) of
           None \<Rightarrow> w1
         | Some tid \<Rightarrow>
             (let w2 = clearTimeout tid w1
              in w2\<lparr>heap := (heap w2)(a := (heap w2 a)\<lparr>clearTimeoutId := None\<rparr>)\<rparr>))"

definition unuse :: "addr \<Rightarrow> ('d, 'e, 'v, 'f) world \<Rightarrow> ('d, 'e, 'v, 'f) world" where
  "unuse a w =
     (let w1 = w\<lparr>heap := (heap w)(a := (heap w a)\<lparr>usedCount := usedCount (heap w a) - 1\<rparr>)\<rparr>
      in if usedCount (heap w1 a) = 0 \<and> gt_zero (clearTime (heap w1 a))
            \<and> clearTime (heap w1 a) \<noteq> Infinity \<and> clearTimeoutId (heap w1 a) = None
         then (case setTimeout (ClearCallback a) (clearTime (heap w1 a)) w1 of
                 (tid, w2) \<Rightarrow>
                   w2\<lparr>heap := (heap w2)(a := (heap w2 a)\<lparr>clearTimeoutId := Some tid\<rparr>)\<rparr>)
         else w1)"

text \<open>
  What the call \<open>this.fetcher(variables)\<close> does at once. The fetcher is a function of the
  caller's: it returns its promise, which settles later; or it throws before it has
  returned one (a fetcher that is not an \<open>async\<close> function can; so does the call of
  \<open>.then\<close> on a value that is no promise). Which of the two happens is an input of \<open>fetch\<close>.
\<close>

datatype 'e invocation = ReturnsPromise | Throws "'e thrown option"

text \<open>
  \<open>fetch\<close> up to its first suspension. The result is the promise of the call and the new
  world. \<open>options?.cacheTime ?? Infinity\<close> is the case on the optional argument. The
  fetcher is invoked after \<open>startFetching\<close> has run, and the invocation is recorded. When
  it returns its promise, the continuation (\<open>then\<close>, \<open>catch\<close>) is attached and waits in
  \<open>inflight\<close> for the promise to settle. When it throws, no continuation has been attached
  and no handler encloses the call: the async function ends there, its promise is rejected
  with the thrown value, and neither \<open>setData\<close> nor \<open>setError\<close> runs.
\<close>

definition fetch ::
  "addr \<Rightarrow> 'v \<Rightarrow> number option \<Rightarrow> 'e invocation \<Rightarrow> ('d, 'e, 'v, 'f) world
     \<Rightarrow> pid \<times> ('d, 'e, 'v, 'f) world" where
  "fetch a vars cacheTimeOption call w0 =
     (case newPromise w0 of
        (p, w) \<Rightarrow>
          if status (store (heap w a)) = Loading then (p, subscribe a (Waiter p) w)
          else
            (let ct = (case cacheTimeOption of None \<Rightarrow> Infinity | Some t \<Rightarrow> t)
             in if isFresh a ct w \<and> status (store (heap w a)) = Success
                then (p, complete p (Resolved (data (store (heap w a)))) w)
                else if isFresh a ct w \<and> status (store (heap w a)) = Error
                then (p, complete p (Rejected (error (store (heap w a)))) w)
                else
                  (let w1 = startFetching a w;
                       w2 = w1\<lparr>fetcherCalls := fetcherCalls w1 @ [(fetcher (heap w1 a), vars)]\<rparr>
                   in case call of
                        ReturnsPromise \<Rightarrow> (p, w2\<lparr>inflight := (inflight w2)(p \<mapsto> a)\<rparr>)
                      | Throws e \<Rightarrow> (p, complete p (Rejected e) w2))))"

definition refetch ::
  "addr \<Rightarrow> 'v \<Rightarrow> 'e invocation \<Rightarrow> ('d, 'e, 'v, 'f) world \<Rightarrow> pid \<times> ('d, 'e, 'v, 'f) world" where
  "refetch a vars call w = fetch a vars (Some (Finite 0)) call w"

text \<open>
  The rest of \<open>fetch\<close>, run when the fetcher's promise settles. The \<open>then\<close> handler either
  throws (left) or stores and returns the data (right); the \<open>catch\<close> handler stores what
  was thrown or rejected and throws it again.
\<close>

datatype ('d, 'e) settlement = Fulfills "'d jsval option" | Rejects "'e thrown option"

definition undefinedDataError :: "'e thrown" where
  "undefinedDataError = ErrorObject ''data in fetcher should not be undefined. Use null instead''"

definition thenHandler ::
  "addr \<Rightarrow> 'd jsval option \<Rightarrow> ('d, 'e, 'v, 'f) world
     \<Rightarrow> ('e thrown option + 'd jsval) \<times> ('d, 'e, 'v, 'f) world" where
  "thenHandler a dataOption w =
     (case dataOption of
        None \<Rightarrow> (Inl (Some undefinedDataError), w)
      | Some d \<Rightarrow> (Inr d, setData a d w))"

definition catchHandler ::
  "addr \<Rightarrow> 'e thrown option \<Rightarrow> ('d, 'e, 'v, 'f) world
     \<Rightarrow> ('e thrown option + 'd jsval) \<times> ('d, 'e, 'v, 'f) world" where
  "catchHandler a e w = (Inl e, setError a e w)"

definition fetcherSettles ::
  "pid \<Rightarrow> ('d, 'e) settlement \<Rightarrow> ('d, 'e, 'v, 'f) world \<Rightarrow> ('d, 'e, 'v, 'f) world" where
  "fetcherSettles p r w0 =
     (case inflight w0 p of
        None \<Rightarrow> w0
      | Some a \<Rightarrow>
          (let w = w0\<lparr>inflight := (inflight w0)(p := None)\<rparr>;
               afterThen = (case r of Fulfills dataOption \<Rightarrow> thenHandler a dataOption w
                                    | Rejects e \<Rightarrow> (Inl e, w));
               afterCatch = (case afterThen of (Inl e, w1) \<Rightarrow> catchHandler a e w1
                                             | (Inr d, w1) \<Rightarrow> (Inr d, w1))
           in case afterCatch of
                (Inl e, w2) \<Rightarrow> complete p (Rejected e) w2
              | (Inr d, w2) \<Rightarrow> complete p (Resolved (Some d)) w2))"


section \<open>Query.ts: the table of entries\<close>

text \<open>
  \<open>hashVariables\<close> (the key of a variables value, \<open>stringifyVariables\<close>) is a parameter.
\<close>

definition findCache ::
  "('v \<Rightarrow> string) \<Rightarrow> 'v \<Rightarrow> ('d, 'e, 'v, 'f) world \<Rightarrow> addr option" where
  "findCache hashVariables vars w = caches (query w) (hashVariables vars)"

definition createCache ::
  "('v \<Rightarrow> string) \<Rightarrow> 'v \<Rightarrow> ('d, 'e, 'v, 'f) world \<Rightarrow> addr \<times> ('d, 'e, 'v, 'f) world" where
  "createCache hashVariables vars w =
     (let a = nextAddr w;
          c = \<lparr>variablesHash = hashVariables vars, clearTime = query_clearTime (query w),
               usedCount = 0, clearTimeoutId = None, fetcher = query_fetcher (query w),
               store = initialState vars, listeners = []\<rparr>
      in (a, w\<lparr>heap := (heap w)(a := c), nextAddr := Suc a,
               query := (query w)\<lparr>caches := (caches (query w))(variablesHash c \<mapsto> a)\<rparr>\<rparr>))"

definition findOrCreateCache ::
  "('v \<Rightarrow> string) \<Rightarrow> 'v \<Rightarrow> ('d, 'e, 'v, 'f) world \<Rightarrow> addr \<times> ('d, 'e, 'v, 'f) world" where
  "findOrCreateCache hashVariables vars w =
     (case findCache hashVariables vars w of
        Some a \<Rightarrow> (a, w)
      | None \<Rightarrow> createCache hashVariables vars w)"


section \<open>QueryObserver: the methods of an observer\<close>

definition clearRefetchTimeout :: "oid \<Rightarrow> ('d, 'e, 'v, 'f) world \<Rightarrow> ('d, 'e, 'v, 'f) world" where
  "clearRefetchTimeout ob w =
     (case refetchTimeoutId (observers w ob) of
        None \<Rightarrow> w
      | Some tid \<Rightarrow>
          if tid \<noteq> 0
          then (let w1 = clearTimeout tid w
                in w1\<lparr>observers := (observers w1)(ob := (observers w1 ob)\<lparr>refetchTimeoutId := None\<rparr>)\<rparr>)
          else w)"

definition setRefetchTimeout :: "oid \<Rightarrow> ('d, 'e, 'v, 'f) world \<Rightarrow> ('d, 'e, 'v, 'f) world" where
  "setRefetchTimeout ob w =
     (let w1 = clearRefetchTimeout ob w;
          this = observers w1 ob;
          a = cache this
      in if truthy (refetchInterval (props this)) \<and> 0 < updatedAt (store (heap w1 a))
         then (case setTimeout (RefetchCallback a)
                      (plus_number (now w1 - updatedAt (store (heap w1 a)))
                         (refetchInterval (props this))) w1 of
                 (tid, w2) \<Rightarrow>
                   w2\<lparr>observers := (observers w2)(ob := (observers w2 ob)\<lparr>refetchTimeoutId := Some tid\<rparr>)\<rparr>)
         else w1)"

text \<open>
  The observer's private \<open>refetch\<close> and \<open>fetch\<close>; the promise is dropped (\<open>catch(noop)\<close>).
  They, \<open>mount\<close> and the constructor pass on what the fetcher does if it is invoked.
\<close>

definition observerRefetch ::
  "oid \<Rightarrow> 'e invocation \<Rightarrow> ('d, 'e, 'v, 'f) world \<Rightarrow> ('d, 'e, 'v, 'f) world" where
  "observerRefetch ob call w =
     (let a = cache (observers w ob)
      in snd (refetch a (variables (store (heap w a))) call w))"

definition observerFetch ::
  "oid \<Rightarrow> 'e invocation \<Rightarrow> ('d, 'e, 'v, 'f) world \<Rightarrow> ('d, 'e, 'v, 'f) world" where
  "observerFetch ob call w =
     (let a = cache (observers w ob)
      in snd (fetch a (variables (store (heap w a))) (Some (cacheTime (props (observers w ob))))
                call w))"

definition mount :: "oid \<Rightarrow> 'e invocation \<Rightarrow> ('d, 'e, 'v, 'f) world \<Rightarrow> ('d, 'e, 'v, 'f) world" where
  "mount ob call w =
     (let a = cache (observers w ob);
          w1 = (if refetchOnMount (props (observers w ob)) then observerRefetch ob call w
                else observerFetch ob call w);
          w2 = use a w1;
          w3 = setRefetchTimeout ob w2;
          w4 = updateState ob (store (heap w3 a)) None w3;
          w5 = subscribe a (ObserverListener ob) w4
      in w5\<lparr>observers := (observers w5)(ob := (observers w5 ob)
             \<lparr>unsubscribeStore := Some (ObserverListener ob)\<rparr>)\<rparr>)"

definition unmount :: "oid \<Rightarrow> ('d, 'e, 'v, 'f) world \<Rightarrow> ('d, 'e, 'v, 'f) world" where
  "unmount ob w =
     (let a = cache (observers w ob);
          w1 = unuse a w;
          w2 = (case unsubscribeStore (observers w1 ob) of
                  None \<Rightarrow> w1
                | Some l \<Rightarrow> unsubscribe a l w1)
      in clearRefetchTimeout ob w2)"

definition destroy :: "oid \<Rightarrow> ('d, 'e, 'v, 'f) world \<Rightarrow> ('d, 'e, 'v, 'f) world" where
  "destroy ob w = unmount ob w"

text \<open>
  The constructor: the props with their defaults (\<open>props.x ?? this.props.x\<close>), the entry,
  then \<open>mount\<close>.
\<close>

definition effectiveProps :: "('d, 'v) QueryObserverConstructorProps \<Rightarrow> 'd ObserverProps" where
  "effectiveProps cp =
     \<lparr>select =
        (case cp_select cp of None \<Rightarrow> select (defaultProps :: 'd ObserverProps) | Some f \<Rightarrow> f),
      refetchInterval =
        (case cp_refetchInterval cp of
           None \<Rightarrow> refetchInterval (defaultProps :: 'd ObserverProps)
         | Some i \<Rightarrow> i),
      cacheTime =
        (case cp_cacheTime cp of None \<Rightarrow> cacheTime (defaultProps :: 'd ObserverProps) | Some t \<Rightarrow> t),
      refetchOnMount =
        (case cp_refetchOnMount cp of
           None \<Rightarrow> refetchOnMount (defaultProps :: 'd ObserverProps)
         | Some b \<Rightarrow> b)\<rparr>"

definition newQueryObserver ::
  "('v \<Rightarrow> string) \<Rightarrow> ('d, 'v) QueryObserverConstructorProps \<Rightarrow> 'e invocation
     \<Rightarrow> ('d, 'e, 'v, 'f) world \<Rightarrow> oid \<times> ('d, 'e, 'v, 'f) world" where
  "newQueryObserver hashVariables cp call w =
     (case findOrCreateCache hashVariables (cp_variables cp) w of
        (a, w1) \<Rightarrow>
          (let ob = nextObserverId w1;
               this =
                 \<lparr>cache = a, unsubscribeStore = None, refetchTimeoutId = None,
                  props = effectiveProps cp, ostate = pendingState, selectCalls = []\<rparr>
           in (ob, mount ob call (w1\<lparr>observers := (observers w1)(ob := this),
                                     nextObserverId := Suc ob\<rparr>))))"


section \<open>Timers firing\<close>

text \<open>
  A pending timer fires once: it is removed and its callback runs. Firing an identifier
  that is not pending (a cleared timer, for one) does nothing. The poll of an observer
  calls \<open>refetch\<close>, so the firing comes with what the fetcher does if it is invoked.
\<close>

definition fireTimer ::
  "nat \<Rightarrow> 'e invocation \<Rightarrow> ('d, 'e, 'v, 'f) world \<Rightarrow> ('d, 'e, 'v, 'f) world" where
  "fireTimer tid call w0 =
     (case timers w0 tid of
        None \<Rightarrow> w0
      | Some t \<Rightarrow>
          (let w = w0\<lparr>timers := (timers w0)(tid := None)\<rparr>
           in case callback t of
                ClearCallback a \<Rightarrow> onClear a w
              | RefetchCallback a \<Rightarrow> snd (refetch a (variables (store (heap w a))) call w)))"



section \<open>Sequences of calls, and what a caller observes\<close>

text \<open>Calls of \<open>fetch\<close> on one entry, one after the other; \<open>refetch\<close> is the option \<open>Some (Finite 0)\<close>.\<close>

fun fetchAll ::
  "addr \<Rightarrow> ('v \<times> number option \<times> 'e invocation) list \<Rightarrow> ('d, 'e, 'v, 'f) world
     \<Rightarrow> pid list \<times> ('d, 'e, 'v, 'f) world" where
  "fetchAll a [] w = ([], w)"
| "fetchAll a ((vars, c, call) # cs) w =
     (fst (fetch a vars c call w) # fst (fetchAll a cs (snd (fetch a vars c call w))),
      snd (fetchAll a cs (snd (fetch a vars c call w))))"

text \<open>
  The condition under which \<open>fetch\<close> reaches \<open>startFetching\<close> and the fetcher: the entry is
  not loading and no fresh settled outcome is cached.
\<close>

definition startsFetch :: "addr \<Rightarrow> number option \<Rightarrow> ('d, 'e, 'v, 'f) world \<Rightarrow> bool" where
  "startsFetch a c w \<longleftrightarrow>
     status (store (heap w a)) \<noteq> Loading
     \<and> \<not> (isFresh a (case c of None \<Rightarrow> Infinity | Some t \<Rightarrow> t) w
            \<and> (status (store (heap w a)) = Success \<or> status (store (heap w a)) = Error))"

text \<open>What the listener of a waiting promise makes of a broadcast state.\<close>

definition waiterOutcome :: "('d, 'e, 'v) QueryCacheState \<Rightarrow> ('d, 'e) promise" where
  "waiterOutcome st =
     (if status st = Success then Resolved (data st)
      else if status st = Error then Rejected (error st)
      else Unsettled)"

text \<open>
  The outcome the specification gives to every caller that shares a fetch: the fetcher's
  value, the fetcher's rejection, or the contract error when the fetcher resolved to
  \<open>undefined\<close>.
\<close>

fun settledWith :: "('d, 'e) settlement \<Rightarrow> ('d, 'e) promise" where
  "settledWith (Fulfills (Some d)) = Resolved (Some d)"
| "settledWith (Fulfills None) = Rejected (Some undefinedDataError)"
| "settledWith (Rejects e) = Rejected e"


section \<open>Auxiliary notions for the statements\<close>

text \<open>The condition under which \<open>unuse\<close> arms the eviction timer, read off its \<open>if\<close>.\<close>

definition arms :: "addr \<Rightarrow> ('d, 'e, 'v, 'f) world \<Rightarrow> bool" where
  "arms a w \<longleftrightarrow>
     usedCount (heap w a) - 1 = 0 \<and> gt_zero (clearTime (heap w a))
     \<and> clearTime (heap w a) \<noteq> Infinity \<and> clearTimeoutId (heap w a) = None"

text \<open>
  The steps of \<open>mount\<close> by name: the fetch or refetch, the publication of the state, and
  the storing of the unsubscribe function. Lemma \<open>mount_steps\<close> shows \<open>mount\<close> to be their
  composition with \<open>use\<close>, \<open>setRefetchTimeout\<close> and \<open>subscribe\<close>.
\<close>

definition mountFetch ::
  "oid \<Rightarrow> 'e invocation \<Rightarrow> ('d, 'e, 'v, 'f) world \<Rightarrow> ('d, 'e, 'v, 'f) world" where
  "mountFetch ob call w =
     (if refetchOnMount (props (observers w ob)) then observerRefetch ob call w
      else observerFetch ob call w)"

definition mountPublish :: "oid \<Rightarrow> addr \<Rightarrow> ('d, 'e, 'v, 'f) world \<Rightarrow> ('d, 'e, 'v, 'f) world" where
  "mountPublish ob a w = updateState ob (store (heap w a)) None w"

definition mountRemember :: "oid \<Rightarrow> ('d, 'e, 'v, 'f) world \<Rightarrow> ('d, 'e, 'v, 'f) world" where
  "mountRemember ob w =
     w\<lparr>observers := (observers w)(ob := (observers w ob)
         \<lparr>unsubscribeStore := Some (ObserverListener ob)\<rparr>)\<rparr>"



section \<open>A concrete run\<close>

text \<open>
  The query of \<open>main.tsx\<close>: name \<open>users\<close>, eviction delay 1000. Data are arrays of names
  (objects, each with its reference), variables are the filter string and are their own
  key, the fetcher is named by a string. Nothing is allocated in \<open>emptyWorld\<close>; the objects
  at unallocated addresses are blank.
\<close>

definition usersProps :: "string QueryConstructorProps" where
  "usersProps = \<lparr>props_name = ''users'', props_fetcher = ''getUsers'',
                  props_clearTime = Some (Finite 1000)\<rparr>"

definition otherProps :: "string QueryConstructorProps" where
  "otherProps = \<lparr>props_name = ''users'', props_fetcher = ''getAdmins'',
                  props_clearTime = None\<rparr>"

definition blankCache :: "(string list, string, string, string) QueryCache" where
  "blankCache =
     \<lparr>variablesHash = [], clearTime = Finite 0, usedCount = 0, clearTimeoutId = None,
      fetcher = [], store = initialState [], listeners = []\<rparr>"

definition blankObserver :: "(string list, string) QueryObserver" where
  "blankObserver =
     \<lparr>cache = 0, unsubscribeStore = None, refetchTimeoutId = None, props = defaultProps,
      ostate = pendingState, selectCalls = []\<rparr>"

definition emptyWorld :: "(string list, string, string, string) world" where
  "emptyWorld =
     \<lparr>now = 5, query = newQuery usersProps, heap = (\<lambda>a. blankCache), nextAddr = 0,
      timers = Map.empty, nextTimerId = 1, promises = (\<lambda>p. Unsettled), nextPromiseId = 0,
      inflight = Map.empty, fetcherCalls = [], observers = (\<lambda>ob. blankObserver),
      nextObserverId = 0\<rparr>"

text \<open>
  An entry for the variables \<open>a\<close> is created (address 0); a first \<open>fetch\<close> starts the
  fetcher (promise 0); the fetcher resolves to the array \<open>[Alice]\<close>.
\<close>

definition entryWorld :: "(string list, string, string, string) world" where
  "entryWorld = snd (findOrCreateCache (\<lambda>v. v) ''a'' emptyWorld)"

definition loadingWorld :: "(string list, string, string, string) world" where
  "loadingWorld = snd (fetch 0 ''a'' None ReturnsPromise entryWorld)"

definition successWorld :: "(string list, string, string, string) world" where
  "successWorld = fetcherSettles 0 (Fulfills (Some (Object 1 [''Alice'']))) loadingWorld"

text \<open>
  An observer of the entry, as \<open>Child1\<close> of \<open>main.tsx\<close> makes it (no refetch on mount), with
  a transform that reverses an array of names into another array and returns any other
  value as it is.
\<close>

definition reverseNames :: "string list jsval \<Rightarrow> string list jsval option" where
  "reverseNames d =
     (case d of Object r names \<Rightarrow> Some (Object (r + 100) (rev names)) | _ \<Rightarrow> Some d)"

definition watcherProps :: "(string list, string) QueryObserverConstructorProps" where
  "watcherProps =
     \<lparr>cp_variables = ''a'', cp_select = Some reverseNames,
      cp_refetchInterval = None, cp_cacheTime = None, cp_refetchOnMount = Some False\<rparr>"

definition watchedWorld :: "(string list, string, string, string) world" where
  "watchedWorld = snd (newQueryObserver (\<lambda>v. v) watcherProps ReturnsPromise successWorld)"

text \<open>An observer that polls every 3000 ms, made when the entry has data.\<close>

definition pollingProps :: "(string list, string) QueryObserverConstructorProps" where
  "pollingProps =
     \<lparr>cp_variables = ''a'', cp_select = None, cp_refetchInterval = Some (Finite 3000),
      cp_cacheTime = None, cp_refetchOnMount = Some False\<rparr>"

definition pollingWorld :: "(string list, string, string, string) world" where
  "pollingWorld = snd (newQueryObserver (\<lambda>v. v) pollingProps ReturnsPromise successWorld)"


definition keptProps :: "string QueryConstructorProps" where
  "keptProps = \<lparr>props_name = ''users'', props_fetcher = ''getUsers'',
                 props_clearTime = Some (Finite 0)\<rparr>"


text \<open>
  The new entry after a direct call of its public method \<open>startFetching\<close>, and a
  \<open>fetch\<close> on it.
\<close>

definition startedWorld :: "(string list, string, string, string) world" where
  "startedWorld = startFetching 0 entryWorld"

definition attachedWorld :: "(string list, string, string, string) world" where
  "attachedWorld = snd (fetch 0 ''a'' None ReturnsPromise startedWorld)"

text \<open>
  A first \<open>fetch\<close> on the new entry whose fetcher throws before it returns a promise, and
  a second \<open>fetch\<close> after it.
\<close>

definition thrownWorld :: "(string list, string, string, string) world" where
  "thrownWorld = snd (fetch 0 ''a'' None (Throws (Some (Reason ''boom''))) entryWorld)"

definition stuckWorld :: "(string list, string, string, string) world" where
  "stuckWorld = snd (fetch 0 ''a'' None ReturnsPromise thrownWorld)"







text \<open>
  An observer made on the new entry starts the fetcher (promise 0), which resolves to
  \<open>NaN\<close>; then a \<open>refetch\<close> of the entry.
\<close>

definition observedWorld :: "(string list, string, string, string) world" where
  "observedWorld = snd (newQueryObserver (\<lambda>v. v) watcherProps ReturnsPromise entryWorld)"

definition nanWorld :: "(string list, string, string, string) world" where
  "nanWorld = fetcherSettles 0 (Fulfills (Some NotANumber)) observedWorld"

definition nanRefetchedWorld :: "(string list, string, string, string) world" where
  "nanRefetchedWorld = snd (refetch 0 ''a'' ReturnsPromise nanWorld)"


section \<open>What a broadcast changes\<close>

text \<open>
  A listener only settles a promise or republishes an observer's state: every other part
  of the world is untouched by \<open>notify\<close>, and so by \<open>setState\<close>.
\<close>

lemma callListener_frame:
  "\<exists>P Q. callListener l st prev w = w\<lparr>promises := P, observers := Q\<rparr>"
proof (cases l)
  case (Waiter p)
  have "callListener l st prev w = w\<lparr>promises := promises (callListener l st prev w), observers := observers w\<rparr>"
    by (simp add: Waiter settle_def)
  then show ?thesis by blast
next
  case (ObserverListener ob)
  have "callListener l st prev w = w\<lparr>promises := promises w, observers := observers (callListener l st prev w)\<rparr>"
    by (simp add: ObserverListener updateState_def Let_def)
  then show ?thesis by blast
qed

lemma notify_frame:
  "\<exists>P Q. notify ls st prev w = w\<lparr>promises := P, observers := Q\<rparr>"
proof (induction ls arbitrary: w)
  case Nil
  have "notify [] st prev w = w\<lparr>promises := promises w, observers := observers w\<rparr>" by simp
  then show ?case by blast
next
  case (Cons l ls)
  obtain P Q where 1: "callListener l st prev w = w\<lparr>promises := P, observers := Q\<rparr>"
    using callListener_frame by blast
  obtain P' Q' where 2: "notify ls st prev (w\<lparr>promises := P, observers := Q\<rparr>) = w\<lparr>promises := P, observers := Q\<rparr>\<lparr>promises := P', observers := Q'\<rparr>"
    using Cons.IH by blast
  have "notify (l # ls) st prev w = w\<lparr>promises := P', observers := Q'\<rparr>"
    by (simp add: 1 2)
  then show ?case by blast
qed

lemma notify_fields [simp]:
  "now (notify ls st prev w) = now w"
  "query (notify ls st prev w) = query w"
  "heap (notify ls st prev w) = heap w"
  "nextAddr (notify ls st prev w) = nextAddr w"
  "timers (notify ls st prev w) = timers w"
  "nextTimerId (notify ls st prev w) = nextTimerId w"
  "nextPromiseId (notify ls st prev w) = nextPromiseId w"
  "inflight (notify ls st prev w) = inflight w"
  "fetcherCalls (notify ls st prev w) = fetcherCalls w"
  "nextObserverId (notify ls st prev w) = nextObserverId w"
proof -
  obtain P Q where "notify ls st prev w = w\<lparr>promises := P, observers := Q\<rparr>"
    using notify_frame by blast
  then show   "now (notify ls st prev w) = now w"
  "query (notify ls st prev w) = query w"
  "heap (notify ls st prev w) = heap w"
  "nextAddr (notify ls st prev w) = nextAddr w"
  "timers (notify ls st prev w) = timers w"
  "nextTimerId (notify ls st prev w) = nextTimerId w"
  "nextPromiseId (notify ls st prev w) = nextPromiseId w"
  "inflight (notify ls st prev w) = inflight w"
  "fetcherCalls (notify ls st prev w) = fetcherCalls w"
  "nextObserverId (notify ls st prev w) = nextObserverId w"
    by simp_all
qed

lemma callListener_promises:
  "promises (callListener l st prev w) p =
     (if l = Waiter p \<and> promises w p = Unsettled then waiterOutcome st else promises w p)"
  by (cases l) (auto simp: settle_def waiterOutcome_def updateState_def Let_def)

lemma notify_promises:
  "promises (notify ls st prev w) p =
     (if Waiter p \<in> set ls \<and> promises w p = Unsettled then waiterOutcome st else promises w p)"
proof (induction ls arbitrary: w)
  case Nil
  then show ?case by simp
next
  case (Cons l ls)
  show ?case
    by (auto simp: Cons.IH callListener_promises waiterOutcome_def simp del: callListener.simps)
qed

lemma callListener_observer_fields:
  "cache (observers (callListener l st prev w) ob) = cache (observers w ob)"
  "props (observers (callListener l st prev w) ob) = props (observers w ob)"
  "refetchTimeoutId (observers (callListener l st prev w) ob) = refetchTimeoutId (observers w ob)"
  "unsubscribeStore (observers (callListener l st prev w) ob) = unsubscribeStore (observers w ob)"
  by (cases l; simp add: settle_def updateState_def Let_def)+

lemma notify_observer_fields [simp]:
  "cache (observers (notify ls st prev w) ob) = cache (observers w ob)"
  "props (observers (notify ls st prev w) ob) = props (observers w ob)"
  "refetchTimeoutId (observers (notify ls st prev w) ob) = refetchTimeoutId (observers w ob)"
  "unsubscribeStore (observers (notify ls st prev w) ob) = unsubscribeStore (observers w ob)"
  by (induction ls arbitrary: w; simp add: callListener_observer_fields)+

lemma setState_fields [simp]:
  "now (setState a f w) = now w"
  "query (setState a f w) = query w"
  "heap (setState a f w) = (heap w)(a := (heap w a)\<lparr>store := f (store (heap w a))\<rparr>)"
  "nextAddr (setState a f w) = nextAddr w"
  "timers (setState a f w) = timers w"
  "nextTimerId (setState a f w) = nextTimerId w"
  "nextPromiseId (setState a f w) = nextPromiseId w"
  "inflight (setState a f w) = inflight w"
  "fetcherCalls (setState a f w) = fetcherCalls w"
  "nextObserverId (setState a f w) = nextObserverId w"
  by (simp_all add: setState_def Let_def)

lemma setState_promises:
  "promises (setState a f w) p =
     (if Waiter p \<in> set (listeners (heap w a)) \<and> promises w p = Unsettled
      then waiterOutcome (f (store (heap w a))) else promises w p)"
  by (simp add: setState_def Let_def notify_promises)

lemma setState_observer_fields [simp]:
  "cache (observers (setState a f w) ob) = cache (observers w ob)"
  "props (observers (setState a f w) ob) = props (observers w ob)"
  "refetchTimeoutId (observers (setState a f w) ob) = refetchTimeoutId (observers w ob)"
  "unsubscribeStore (observers (setState a f w) ob) = unsubscribeStore (observers w ob)"
  by (simp_all add: setState_def Let_def)

lemma fetch_loading:
  assumes "status (store (heap w a)) = Loading"
  shows "fetch a vars c call w =
           (nextPromiseId w,
            subscribe a (Waiter (nextPromiseId w))
              (w\<lparr>promises := (promises w)(nextPromiseId w := Unsettled),
                 nextPromiseId := Suc (nextPromiseId w)\<rparr>))"
  using assms by (simp add: fetch_def newPromise_def)

lemma fetch_hit_success:
  assumes "isFresh a (case c of None \<Rightarrow> Infinity | Some t \<Rightarrow> t) w"
      and "status (store (heap w a)) = Success"
  shows "fetch a vars c call w =
           (nextPromiseId w,
            w\<lparr>promises := (promises w)(nextPromiseId w := Resolved (data (store (heap w a)))),
              nextPromiseId := Suc (nextPromiseId w)\<rparr>)"
  using assms by (simp add: fetch_def newPromise_def complete_def isFresh_def)

lemma fetch_hit_error:
  assumes "isFresh a (case c of None \<Rightarrow> Infinity | Some t \<Rightarrow> t) w"
      and "status (store (heap w a)) = Error"
  shows "fetch a vars c call w =
           (nextPromiseId w,
            w\<lparr>promises := (promises w)(nextPromiseId w := Rejected (error (store (heap w a)))),
              nextPromiseId := Suc (nextPromiseId w)\<rparr>)"
  using assms by (simp add: fetch_def newPromise_def complete_def isFresh_def)

lemma fetch_miss:
  assumes "startsFetch a c w"
  shows "fetch a vars c ReturnsPromise w =
           (nextPromiseId w,
            (startFetching a (w\<lparr>promises := (promises w)(nextPromiseId w := Unsettled),
                 nextPromiseId := Suc (nextPromiseId w)\<rparr>))
            \<lparr>fetcherCalls := fetcherCalls w @ [(fetcher (heap w a), vars)],
              inflight := (inflight w)(nextPromiseId w \<mapsto> a)\<rparr>)"
  using assms
  by (auto simp: fetch_def newPromise_def isFresh_def Let_def startFetching_def startsFetch_def)

lemma fetch_miss_throws:
  assumes "startsFetch a c w"
  shows "fetch a vars c (Throws e) w =
           (nextPromiseId w,
            (startFetching a (w\<lparr>promises := (promises w)(nextPromiseId w := Unsettled),
                 nextPromiseId := Suc (nextPromiseId w)\<rparr>))
            \<lparr>fetcherCalls := fetcherCalls w @ [(fetcher (heap w a), vars)],
              promises := (promises (startFetching a
                 (w\<lparr>promises := (promises w)(nextPromiseId w := Unsettled),
                    nextPromiseId := Suc (nextPromiseId w)\<rparr>)))(nextPromiseId w := Rejected e)\<rparr>)"
  using assms
  by (auto simp: fetch_def newPromise_def isFresh_def Let_def startFetching_def startsFetch_def
        complete_def)


lemma fetcherSettles_inflight:
  assumes "inflight w p = Some a"
  shows "fetcherSettles p r w =
           (case r of
              Fulfills (Some d) \<Rightarrow>
                complete p (Resolved (Some d)) (setData a d (w\<lparr>inflight := (inflight w)(p := None)\<rparr>))
            | Fulfills None \<Rightarrow>
                complete p (Rejected (Some undefinedDataError))
                  (setError a (Some undefinedDataError) (w\<lparr>inflight := (inflight w)(p := None)\<rparr>))
            | Rejects e \<Rightarrow>
                complete p (Rejected e) (setError a e (w\<lparr>inflight := (inflight w)(p := None)\<rparr>)))"
  using assms
  by (simp add: fetcherSettles_def thenHandler_def catchHandler_def Let_def
        split: settlement.splits option.splits)


lemma updateState_same_data:
  assumes "strictEqualsOption (data st) (data prev)"
  shows "selectCalls (observers (updateState ob st (Some prev) w) ob') = selectCalls (observers w ob')
       \<and> obs_data (ostate (observers (updateState ob st (Some prev) w) ob')) = obs_data (ostate (observers w ob'))"
  using assms by (simp add: updateState_def transformData_def Let_def)

lemma callListener_same_data:
  assumes "strictEqualsOption (data st) (data prev)"
  shows "selectCalls (observers (callListener l st prev w) ob) = selectCalls (observers w ob)
       \<and> obs_data (ostate (observers (callListener l st prev w) ob)) = obs_data (ostate (observers w ob))"
proof (cases l)
  case (Waiter p)
  then show ?thesis by (simp add: settle_def)
next
  case (ObserverListener ob')
  then show ?thesis using updateState_same_data [OF assms, of ob' w ob] by simp
qed

text \<open>
  A broadcast does not reach an observer that has not subscribed yet (the observer under
  construction).
\<close>

lemma callListener_unsubscribed:
  assumes "unsubscribeStore (observers w ob) = None"
  shows "observers (callListener l st prev w) ob = observers w ob"
proof (cases l)
  case (Waiter p)
  then show ?thesis by (simp add: settle_def)
next
  case (ObserverListener ob')
  then show ?thesis using assms by (auto simp: updateState_def Let_def)
qed

lemma notify_unsubscribed:
  assumes "unsubscribeStore (observers w ob) = None"
  shows "observers (notify ls st prev w) ob = observers w ob"
  using assms
proof (induction ls arbitrary: w)
  case Nil
  then show ?case by simp
next
  case (Cons l ls)
  have "unsubscribeStore (observers (callListener l st prev w) ob) = None"
    using Cons.prems by (simp add: callListener_observer_fields)
  from Cons.IH [OF this] show ?case
    by (simp add: callListener_unsubscribed [OF Cons.prems])
qed

lemma setState_unsubscribed:
  assumes "unsubscribeStore (observers w ob) = None"
  shows "observers (setState a f w) ob = observers w ob"
  using assms by (simp add: setState_def Let_def notify_unsubscribed)

lemma fetch_unsubscribed:
  assumes "unsubscribeStore (observers w ob) = None"
  shows "observers (snd (fetch a vars c call w)) ob = observers w ob"
  using assms
  by (simp add: fetch_def newPromise_def complete_def subscribe_def Let_def startFetching_def
        setState_unsubscribed split: invocation.splits)

lemma notify_same_data:
  assumes "strictEqualsOption (data st) (data prev)"
  shows "selectCalls (observers (notify ls st prev w) ob) = selectCalls (observers w ob)
       \<and> obs_data (ostate (observers (notify ls st prev w) ob)) = obs_data (ostate (observers w ob))"
proof (induction ls arbitrary: w)
  case Nil
  then show ?case by simp
next
  case (Cons l ls)
  show ?case using Cons.IH [of "callListener l st prev w"] callListener_same_data [OF assms, of l w ob]
    by simp
qed


section \<open>What each method changes\<close>

lemma isFresh_newPromise [simp]:
  "isFresh a ct (w\<lparr>promises := P, nextPromiseId := n\<rparr>) = isFresh a ct w"
  by (simp add: isFresh_def)

lemma setState_same_data:
  assumes "strictEqualsOption (data (f (store (heap w a)))) (data (store (heap w a)))"
  shows "selectCalls (observers (setState a f w) ob) = selectCalls (observers w ob)"
    and "obs_data (ostate (observers (setState a f w) ob)) = obs_data (ostate (observers w ob))"
  by (simp_all add: setState_def Let_def notify_same_data [OF assms])

lemma fetch_view [simp]:
  "inflight (snd (fetch a vars c call w)) =
     (if startsFetch a c w \<and> call = ReturnsPromise then (inflight w)(nextPromiseId w \<mapsto> a)
      else inflight w)"
  "fetcherCalls (snd (fetch a vars c call w)) =
     (if startsFetch a c w then fetcherCalls w @ [(fetcher (heap w a), vars)] else fetcherCalls w)"
  "store (heap (snd (fetch a vars c call w)) b) =
     (if startsFetch a c w \<and> b = a then startFetching_state (store (heap w a))
      else store (heap w b))"
  "nextAddr (snd (fetch a vars c call w)) = nextAddr w"
  "nextPromiseId (snd (fetch a vars c call w)) = Suc (nextPromiseId w)"
  "fst (fetch a vars c call w) = nextPromiseId w"
  "nextObserverId (snd (fetch a vars c call w)) = nextObserverId w"
  "timers (snd (fetch a vars c call w)) = timers w"
  "nextTimerId (snd (fetch a vars c call w)) = nextTimerId w"
  "query (snd (fetch a vars c call w)) = query w"
  "now (snd (fetch a vars c call w)) = now w"
  "cache (observers (snd (fetch a vars c call w)) ob) = cache (observers w ob)"
  "props (observers (snd (fetch a vars c call w)) ob) = props (observers w ob)"
  "refetchTimeoutId (observers (snd (fetch a vars c call w)) ob) = refetchTimeoutId (observers w ob)"
  "unsubscribeStore (observers (snd (fetch a vars c call w)) ob) = unsubscribeStore (observers w ob)"
  "variablesHash (heap (snd (fetch a vars c call w)) b) = variablesHash (heap w b)"
  "clearTime (heap (snd (fetch a vars c call w)) b) = clearTime (heap w b)"
  "usedCount (heap (snd (fetch a vars c call w)) b) = usedCount (heap w b)"
  "clearTimeoutId (heap (snd (fetch a vars c call w)) b) = clearTimeoutId (heap w b)"
  "fetcher (heap (snd (fetch a vars c call w)) b) = fetcher (heap w b)"
  by (cases call;
      auto simp: fetch_def newPromise_def complete_def subscribe_def startsFetch_def Let_def
        startFetching_def)+

lemma fetch_listeners:
  "listeners (heap (snd (fetch a vars c call w)) b) =
     (if status (store (heap w a)) = Loading \<and> b = a \<and> Waiter (nextPromiseId w) \<notin> set (listeners (heap w a))
      then listeners (heap w a) @ [Waiter (nextPromiseId w)]
      else listeners (heap w b))"
  by (simp add: fetch_def newPromise_def complete_def subscribe_def Let_def startFetching_def
        split: invocation.splits)

lemma use_view [simp]:
  "store (heap (use a w) b) = store (heap w b)"
  "listeners (heap (use a w) b) = listeners (heap w b)"
  "variablesHash (heap (use a w) b) = variablesHash (heap w b)"
  "clearTime (heap (use a w) b) = clearTime (heap w b)"
  "fetcher (heap (use a w) b) = fetcher (heap w b)"
  "usedCount (heap (use a w) b) = (if b = a then usedCount (heap w a) + 1 else usedCount (heap w b))"
  "clearTimeoutId (heap (use a w) b) = (if b = a then None else clearTimeoutId (heap w b))"
  "timers (use a w) =
     (case clearTimeoutId (heap w a) of None \<Rightarrow> timers w | Some tid \<Rightarrow> (timers w)(tid := None))"
  "nextTimerId (use a w) = nextTimerId w"
  "observers (use a w) = observers w"
  "inflight (use a w) = inflight w"
  "fetcherCalls (use a w) = fetcherCalls w"
  "promises (use a w) = promises w"
  "nextPromiseId (use a w) = nextPromiseId w"
  "nextAddr (use a w) = nextAddr w"
  "nextObserverId (use a w) = nextObserverId w"
  "query (use a w) = query w"
  "now (use a w) = now w"
  by (simp_all add: use_def clearTimeout_def Let_def split: option.splits)

lemma unuse_view [simp]:
  "store (heap (unuse a w) b) = store (heap w b)"
  "listeners (heap (unuse a w) b) = listeners (heap w b)"
  "variablesHash (heap (unuse a w) b) = variablesHash (heap w b)"
  "clearTime (heap (unuse a w) b) = clearTime (heap w b)"
  "fetcher (heap (unuse a w) b) = fetcher (heap w b)"
  "usedCount (heap (unuse a w) b) = (if b = a then usedCount (heap w a) - 1 else usedCount (heap w b))"
  "clearTimeoutId (heap (unuse a w) b) =
     (if b = a \<and> arms a w then Some (nextTimerId w) else clearTimeoutId (heap w b))"
  "timers (unuse a w) =
     (if arms a w
      then (timers w)(nextTimerId w \<mapsto> \<lparr>callback = ClearCallback a, delay = clearTime (heap w a)\<rparr>)
      else timers w)"
  "nextTimerId (unuse a w) = (if arms a w then Suc (nextTimerId w) else nextTimerId w)"
  "observers (unuse a w) = observers w"
  "inflight (unuse a w) = inflight w"
  "fetcherCalls (unuse a w) = fetcherCalls w"
  "promises (unuse a w) = promises w"
  "nextPromiseId (unuse a w) = nextPromiseId w"
  "nextAddr (unuse a w) = nextAddr w"
  "nextObserverId (unuse a w) = nextObserverId w"
  "query (unuse a w) = query w"
  "now (unuse a w) = now w"
  by (simp_all add: unuse_def setTimeout_def arms_def Let_def)

lemma clearRefetchTimeout_view [simp]:
  "heap (clearRefetchTimeout ob w) = heap w"
  "query (clearRefetchTimeout ob w) = query w"
  "now (clearRefetchTimeout ob w) = now w"
  "inflight (clearRefetchTimeout ob w) = inflight w"
  "fetcherCalls (clearRefetchTimeout ob w) = fetcherCalls w"
  "promises (clearRefetchTimeout ob w) = promises w"
  "nextPromiseId (clearRefetchTimeout ob w) = nextPromiseId w"
  "nextAddr (clearRefetchTimeout ob w) = nextAddr w"
  "nextObserverId (clearRefetchTimeout ob w) = nextObserverId w"
  "nextTimerId (clearRefetchTimeout ob w) = nextTimerId w"
  "timers (clearRefetchTimeout ob w) =
     (case refetchTimeoutId (observers w ob) of
        None \<Rightarrow> timers w
      | Some tid \<Rightarrow> if tid \<noteq> 0 then (timers w)(tid := None) else timers w)"
  "cache (observers (clearRefetchTimeout ob w) ob') = cache (observers w ob')"
  "props (observers (clearRefetchTimeout ob w) ob') = props (observers w ob')"
  "unsubscribeStore (observers (clearRefetchTimeout ob w) ob') = unsubscribeStore (observers w ob')"
  "ostate (observers (clearRefetchTimeout ob w) ob') = ostate (observers w ob')"
  "selectCalls (observers (clearRefetchTimeout ob w) ob') = selectCalls (observers w ob')"
  "refetchTimeoutId (observers (clearRefetchTimeout ob w) ob') =
     (if ob' = ob then (case refetchTimeoutId (observers w ob) of
                          None \<Rightarrow> None
                        | Some tid \<Rightarrow> if tid \<noteq> 0 then None else Some tid)
      else refetchTimeoutId (observers w ob'))"
  by (simp_all add: clearRefetchTimeout_def clearTimeout_def Let_def split: option.splits)

lemma setRefetchTimeout_view [simp]:
  "heap (setRefetchTimeout ob w) = heap w"
  "query (setRefetchTimeout ob w) = query w"
  "now (setRefetchTimeout ob w) = now w"
  "inflight (setRefetchTimeout ob w) = inflight w"
  "fetcherCalls (setRefetchTimeout ob w) = fetcherCalls w"
  "promises (setRefetchTimeout ob w) = promises w"
  "nextPromiseId (setRefetchTimeout ob w) = nextPromiseId w"
  "nextAddr (setRefetchTimeout ob w) = nextAddr w"
  "nextObserverId (setRefetchTimeout ob w) = nextObserverId w"
  "cache (observers (setRefetchTimeout ob w) ob') = cache (observers w ob')"
  "props (observers (setRefetchTimeout ob w) ob') = props (observers w ob')"
  "unsubscribeStore (observers (setRefetchTimeout ob w) ob') = unsubscribeStore (observers w ob')"
  "ostate (observers (setRefetchTimeout ob w) ob') = ostate (observers w ob')"
  "selectCalls (observers (setRefetchTimeout ob w) ob') = selectCalls (observers w ob')"
  by (simp_all add: setRefetchTimeout_def setTimeout_def Let_def)

lemma updateState_view [simp]:
  "heap (updateState ob st prevState w) = heap w"
  "query (updateState ob st prevState w) = query w"
  "now (updateState ob st prevState w) = now w"
  "inflight (updateState ob st prevState w) = inflight w"
  "fetcherCalls (updateState ob st prevState w) = fetcherCalls w"
  "promises (updateState ob st prevState w) = promises w"
  "nextPromiseId (updateState ob st prevState w) = nextPromiseId w"
  "nextAddr (updateState ob st prevState w) = nextAddr w"
  "nextObserverId (updateState ob st prevState w) = nextObserverId w"
  "timers (updateState ob st prevState w) = timers w"
  "nextTimerId (updateState ob st prevState w) = nextTimerId w"
  "cache (observers (updateState ob st prevState w) ob') = cache (observers w ob')"
  "props (observers (updateState ob st prevState w) ob') = props (observers w ob')"
  "unsubscribeStore (observers (updateState ob st prevState w) ob') = unsubscribeStore (observers w ob')"
  "refetchTimeoutId (observers (updateState ob st prevState w) ob') = refetchTimeoutId (observers w ob')"
  by (simp_all add: updateState_def Let_def)

lemma updateState_initial:
  "obs_data (ostate (observers (updateState ob st None w) ob)) = None"
  "isSuccess (ostate (observers (updateState ob st None w) ob)) = False"
  "originalData (ostate (observers (updateState ob st None w) ob)) = data st"
  "selectCalls (observers (updateState ob st None w) ob) = selectCalls (observers w ob)"
  by (simp_all add: updateState_def transformData_def Let_def)

lemma subscribe_view [simp]:
  "store (heap (subscribe a l w) b) = store (heap w b)"
  "usedCount (heap (subscribe a l w) b) = usedCount (heap w b)"
  "clearTimeoutId (heap (subscribe a l w) b) = clearTimeoutId (heap w b)"
  "variablesHash (heap (subscribe a l w) b) = variablesHash (heap w b)"
  "clearTime (heap (subscribe a l w) b) = clearTime (heap w b)"
  "fetcher (heap (subscribe a l w) b) = fetcher (heap w b)"
  "observers (subscribe a l w) = observers w"
  "timers (subscribe a l w) = timers w"
  "nextTimerId (subscribe a l w) = nextTimerId w"
  "query (subscribe a l w) = query w"
  "now (subscribe a l w) = now w"
  "inflight (subscribe a l w) = inflight w"
  "fetcherCalls (subscribe a l w) = fetcherCalls w"
  "promises (subscribe a l w) = promises w"
  "nextPromiseId (subscribe a l w) = nextPromiseId w"
  "nextAddr (subscribe a l w) = nextAddr w"
  "nextObserverId (subscribe a l w) = nextObserverId w"
  by (simp_all add: subscribe_def)

lemma unsubscribe_view [simp]:
  "store (heap (unsubscribe a l w) b) = store (heap w b)"
  "usedCount (heap (unsubscribe a l w) b) = usedCount (heap w b)"
  "clearTimeoutId (heap (unsubscribe a l w) b) = clearTimeoutId (heap w b)"
  "variablesHash (heap (unsubscribe a l w) b) = variablesHash (heap w b)"
  "clearTime (heap (unsubscribe a l w) b) = clearTime (heap w b)"
  "fetcher (heap (unsubscribe a l w) b) = fetcher (heap w b)"
  "listeners (heap (unsubscribe a l w) b) =
     (if b = a then removeAll l (listeners (heap w a)) else listeners (heap w b))"
  "observers (unsubscribe a l w) = observers w"
  "timers (unsubscribe a l w) = timers w"
  "nextTimerId (unsubscribe a l w) = nextTimerId w"
  "query (unsubscribe a l w) = query w"
  "now (unsubscribe a l w) = now w"
  "inflight (unsubscribe a l w) = inflight w"
  "fetcherCalls (unsubscribe a l w) = fetcherCalls w"
  "promises (unsubscribe a l w) = promises w"
  "nextPromiseId (unsubscribe a l w) = nextPromiseId w"
  "nextAddr (unsubscribe a l w) = nextAddr w"
  "nextObserverId (unsubscribe a l w) = nextObserverId w"
  by (simp_all add: unsubscribe_def)

lemma mount_initial_state:
  "obs_data (ostate (observers (mount ob call w) ob)) = None"
  "isSuccess (ostate (observers (mount ob call w) ob)) = False"
  "originalData (ostate (observers (mount ob call w) ob))
     = data (store (heap (mount ob call w) (cache (observers w ob))))"
  "data (store (heap (mount ob call w) a)) = data (store (heap w a))"
  "cache (observers (mount ob call w) ob') = cache (observers w ob')"
  by (simp_all add: mount_def Let_def updateState_initial observerFetch_def observerRefetch_def
        refetch_def startFetching_state_def)

lemma mount_selectCalls:
  assumes "unsubscribeStore (observers w ob) = None"
  shows "selectCalls (observers (mount ob call w) ob) = selectCalls (observers w ob)"
  using assms
  by (simp add: mount_def Let_def updateState_initial observerFetch_def observerRefetch_def
        refetch_def fetch_unsubscribed)

lemma onClear_view [simp]:
  "heap (onClear a w) = heap w"
  "timers (onClear a w) = timers w"
  "caches (query (onClear a w)) = (caches (query w))(variablesHash (heap w a) := None)"
  by (simp_all add: onClear_def)

lemma fireTimer_view [simp]:
  "timers (fireTimer tid call w) = (timers w)(tid := None)"
  "variablesHash (heap (fireTimer tid call w) b) = variablesHash (heap w b)"
  by (auto simp: fireTimer_def refetch_def Let_def split: option.splits timer_callback.splits)






lemma unmount_view:
  "usedCount (heap (unmount ob w) a) =
     (if a = cache (observers w ob) then usedCount (heap w a) - 1 else usedCount (heap w a))"
  "listeners (heap (unmount ob w) a) =
     (if a = cache (observers w ob)
      then (case unsubscribeStore (observers w ob) of
              None \<Rightarrow> listeners (heap w a)
            | Some l \<Rightarrow> removeAll l (listeners (heap w a)))
      else listeners (heap w a))"
  "cache (observers (unmount ob w) ob') = cache (observers w ob')"
  "unsubscribeStore (observers (unmount ob w) ob') = unsubscribeStore (observers w ob')"
  "refetchTimeoutId (observers (unmount ob w) ob) =
     (case refetchTimeoutId (observers w ob) of
        None \<Rightarrow> None
      | Some tid \<Rightarrow> if tid \<noteq> 0 then None else Some tid)"
  by (simp_all add: unmount_def Let_def split: option.splits)

lemma unmount_clears_refetch_timer:
  "refetchTimeoutId (observers w ob) = Some tid \<Longrightarrow> tid \<noteq> 0 \<Longrightarrow> timers (unmount ob w) tid = None"
  by (simp add: unmount_def Let_def split: option.splits)

lemma newQueryObserver_found:
  assumes "findCache hv (cp_variables cp) w = Some a"
  shows "fst (newQueryObserver hv cp call w) = nextObserverId w"
    and "cache (observers (snd (newQueryObserver hv cp call w)) (nextObserverId w)) = a"
    and "data (store (heap (snd (newQueryObserver hv cp call w)) b)) = data (store (heap w b))"
  using assms
  by (simp_all add: newQueryObserver_def findOrCreateCache_def Let_def mount_initial_state)


lemma fetcherSettles_view [simp]:
  "inflight (fetcherSettles p r w) = (inflight w)(p := None)"
  "nextAddr (fetcherSettles p r w) = nextAddr w"
  "nextPromiseId (fetcherSettles p r w) = nextPromiseId w"
  "nextObserverId (fetcherSettles p r w) = nextObserverId w"
  "timers (fetcherSettles p r w) = timers w"
  "nextTimerId (fetcherSettles p r w) = nextTimerId w"
  "query (fetcherSettles p r w) = query w"
  "now (fetcherSettles p r w) = now w"
  "fetcherCalls (fetcherSettles p r w) = fetcherCalls w"
  "cache (observers (fetcherSettles p r w) ob) = cache (observers w ob)"
  by (auto simp: fetcherSettles_def thenHandler_def catchHandler_def complete_def
        setData_def setError_def Let_def split: option.splits settlement.splits)


section \<open>Calls that attach to a fetch in flight\<close>

lemma fetch_loading_view:
  assumes "status (store (heap w a)) = Loading"
  shows "promises (snd (fetch a vars c call w)) = (promises w)(nextPromiseId w := Unsettled)"
    and "set (listeners (heap (snd (fetch a vars c call w)) a))
           = insert (Waiter (nextPromiseId w)) (set (listeners (heap w a)))"
    and "store (heap (snd (fetch a vars c call w)) b) = store (heap w b)"
    and "fetcherCalls (snd (fetch a vars c call w)) = fetcherCalls w"
    and "inflight (snd (fetch a vars c call w)) = inflight w"
  using assms by (auto simp: fetch_loading subscribe_def startsFetch_def)

lemma fetchAll_loading:
  assumes "status (store (heap w a)) = Loading"
  shows "fetcherCalls (snd (fetchAll a cs w)) = fetcherCalls w
         \<and> inflight (snd (fetchAll a cs w)) = inflight w
         \<and> store (heap (snd (fetchAll a cs w)) a) = store (heap w a)
         \<and> fst (fetchAll a cs w) = [nextPromiseId w ..< nextPromiseId w + length cs]
         \<and> (\<forall>p. p < nextPromiseId w \<longrightarrow> promises (snd (fetchAll a cs w)) p = promises w p)
         \<and> (\<forall>p. nextPromiseId w \<le> p \<and> p < nextPromiseId w + length cs \<longrightarrow>
               promises (snd (fetchAll a cs w)) p = Unsettled
               \<and> Waiter p \<in> set (listeners (heap (snd (fetchAll a cs w)) a)))
         \<and> set (listeners (heap w a)) \<subseteq> set (listeners (heap (snd (fetchAll a cs w)) a))"
  using assms
proof (induction cs arbitrary: w)
  case Nil
  then show ?case by auto
next
  case (Cons vc cs)
  obtain vars c call where vc: "vc = (vars, c, call)" by (cases vc)
  let ?w1 = "snd (fetch a vars c call w)"
  note v = fetch_loading_view [OF Cons.prems, of vars c call]
  have l1: "status (store (heap ?w1 a)) = Loading"
    unfolding v(3) by (rule Cons.prems)
  note ih = Cons.IH [OF l1]
  have ns [simp]: "\<not> startsFetch a c w"
    using Cons.prems by (simp add: startsFetch_def)
  show ?case
    unfolding vc fetchAll.simps fst_conv snd_conv
  proof (intro conjI allI impI)
    show "fetcherCalls (snd (fetchAll a cs ?w1)) = fetcherCalls w"
      using ih v by simp
    show "inflight (snd (fetchAll a cs ?w1)) = inflight w"
      using ih v by simp
    show "store (heap (snd (fetchAll a cs ?w1)) a) = store (heap w a)"
      using ih v by simp
    show "fst (fetch a vars c call w) # fst (fetchAll a cs ?w1)
            = [nextPromiseId w ..< nextPromiseId w + length ((vars, c, call) # cs)]"
      using ih by (simp add: upt_rec)
    show "set (listeners (heap w a)) \<subseteq> set (listeners (heap (snd (fetchAll a cs ?w1)) a))"
      using ih v by auto
  next
    fix p assume "p < nextPromiseId w"
    then show "promises (snd (fetchAll a cs ?w1)) p = promises w p"
      using ih v by simp
  next
    fix p assume p: "nextPromiseId w \<le> p \<and> p < nextPromiseId w + length ((vars, c, call) # cs)"
    show "promises (snd (fetchAll a cs ?w1)) p = Unsettled"
    proof (cases "p = nextPromiseId w")
      case True
      then show ?thesis using ih v by simp
    next
      case False
      with p show ?thesis using ih by simp
    qed
  next
    fix p assume p: "nextPromiseId w \<le> p \<and> p < nextPromiseId w + length ((vars, c, call) # cs)"
    show "Waiter p \<in> set (listeners (heap (snd (fetchAll a cs ?w1)) a))"
    proof (cases "p = nextPromiseId w")
      case True
      then show ?thesis using ih v by auto
    next
      case False
      with p show ?thesis using ih by simp
    qed
  qed
qed

lemma waiterOutcome_settled [simp]:
  "waiterOutcome (setData_state t d s) = Resolved (Some d)"
  "waiterOutcome (setError_state t e s) = Rejected e"
  by (simp_all add: waiterOutcome_def setData_state_def setError_state_def)

lemma fetcherSettles_promises:
  assumes "inflight w p0 = Some a"
  shows "promises (fetcherSettles p0 r w) p =
           (if p = p0 \<or> (Waiter p \<in> set (listeners (heap w a)) \<and> promises w p = Unsettled)
            then settledWith r else promises w p)"
proof (cases r)
  case (Fulfills dataOption)
  then show ?thesis
    by (cases dataOption)
       (simp_all add: fetcherSettles_inflight [OF assms] complete_def setData_def setError_def
          setState_promises)
next
  case (Rejects e)
  then show ?thesis
    by (simp add: fetcherSettles_inflight [OF assms] complete_def setError_def setState_promises)
qed


section \<open>Facts about the concrete run\<close>

text \<open>
  The worlds of the run in full. Each is computed from the one before; the definitions
  used are collected first. The constructor of an observer is unfolded by
  \<open>newQueryObserver_found_eq\<close> and \<open>mount_steps\<close>, which have no bound variables, so that
  each step is computed on a world that is already explicit.
\<close>

lemma mount_steps:
  "mount ob call w =
     mountRemember ob
       (subscribe (cache (observers w ob)) (ObserverListener ob)
          (mountPublish ob (cache (observers w ob))
             (setRefetchTimeout ob (use (cache (observers w ob)) (mountFetch ob call w)))))"
  by (simp add: mount_def mountRemember_def mountPublish_def mountFetch_def Let_def)

lemma newQueryObserver_found_eq:
  assumes "findCache hv (cp_variables cp) w = Some a"
  shows "snd (newQueryObserver hv cp call w) =
           mount (nextObserverId w) call
             (w\<lparr>observers := (observers w)(nextObserverId w :=
                   \<lparr>cache = a, unsubscribeStore = None, refetchTimeoutId = None,
                    props = effectiveProps cp, ostate = pendingState, selectCalls = []\<rparr>),
                 nextObserverId := Suc (nextObserverId w)\<rparr>)"
  using assms by (simp add: newQueryObserver_def findOrCreateCache_def Let_def)

lemmas cache_defs =
  initialState_def findOrCreateCache_def findCache_def createCache_def newQuery_def
  usersProps_def keptProps_def fetch_def refetch_def newPromise_def startFetching_def
  setState_def isFresh_def subscribe_def unsubscribe_def startFetching_state_def complete_def
  settle_def fetcherSettles_def thenHandler_def catchHandler_def setData_def setError_def
  setData_state_def setError_state_def use_def unuse_def setTimeout_def clearTimeout_def
  onClear_def fireTimer_def Let_def

lemmas observer_defs =
  watcherProps_def pollingProps_def effectiveProps_def mount_steps mountFetch_def
  mountPublish_def mountRemember_def observerFetch_def observerRefetch_def
  setRefetchTimeout_def clearRefetchTimeout_def updateState_def transformData_def
  defaultProps_def pendingState_def unmount_def destroy_def reverseNames_def

lemmas view_simps =
  fetch_view use_view unuse_view clearRefetchTimeout_view setRefetchTimeout_view
  updateState_view subscribe_view unsubscribe_view onClear_view fireTimer_view
  fetcherSettles_view setState_fields setState_observer_fields

lemma entryWorld_eq:
  "entryWorld =
     \<lparr>now = 5,
              query =
                \<lparr>name = ''users'', query_fetcher = ''getUsers'',
                   query_clearTime = Finite 1000, caches = [''a'' \<mapsto> 0]\<rparr>,
              heap =
                (\<lambda>a. blankCache)
                (0 := \<lparr>variablesHash = ''a'', clearTime = Finite 1000,
                         usedCount = 0, clearTimeoutId = None,
                         fetcher = ''getUsers'',
                         store =
                           \<lparr>data = None, error = None, dataUpdatedAt = 0,
                              errorUpdatedAt = 0, updatedAt = 0,
                              status = Pending, variables = ''a''\<rparr>,
                         listeners = []\<rparr>),
              nextAddr = Suc 0, timers = \<lambda>x. None, nextTimerId = Suc 0,
              promises = \<lambda>p. Unsettled, nextPromiseId = 0, inflight = \<lambda>x. None,
              fetcherCalls = [], observers = \<lambda>ob. blankObserver,
              nextObserverId =
                0\<rparr>"
  unfolding entryWorld_def
  by (simp add: emptyWorld_def cache_defs del: view_simps)

lemma loadingWorld_eq:
  "loadingWorld =
     \<lparr>now = 5,
              query =
                \<lparr>name = ''users'', query_fetcher = ''getUsers'',
                   query_clearTime = Finite 1000, caches = [''a'' \<mapsto> 0]\<rparr>,
              heap =
                (\<lambda>a. blankCache)
                (0 := \<lparr>variablesHash = ''a'', clearTime = Finite 1000,
                         usedCount = 0, clearTimeoutId = None,
                         fetcher = ''getUsers'',
                         store =
                           \<lparr>data = None, error = None, dataUpdatedAt = 0,
                              errorUpdatedAt = 0, updatedAt = 0,
                              status = Loading, variables = ''a''\<rparr>,
                         listeners = []\<rparr>),
              nextAddr = Suc 0, timers = \<lambda>x. None, nextTimerId = Suc 0,
              promises = (\<lambda>p. Unsettled)(0 := Unsettled), nextPromiseId = Suc 0,
              inflight = [0 \<mapsto> 0], fetcherCalls = [(''getUsers'', ''a'')],
              observers = \<lambda>ob. blankObserver,
              nextObserverId =
                0\<rparr>"
  unfolding loadingWorld_def
  by (simp add: entryWorld_eq cache_defs del: view_simps)

lemma successWorld_eq:
  "successWorld =
     \<lparr>now = 5,
              query =
                \<lparr>name = ''users'', query_fetcher = ''getUsers'',
                   query_clearTime = Finite 1000, caches = [''a'' \<mapsto> 0]\<rparr>,
              heap =
                (\<lambda>a. blankCache)
                (0 := \<lparr>variablesHash = ''a'', clearTime = Finite 1000,
                         usedCount = 0, clearTimeoutId = None,
                         fetcher = ''getUsers'',
                         store =
                           \<lparr>data = Some (Object (Suc 0) [''Alice'']),
                              error = None, dataUpdatedAt = 5,
                              errorUpdatedAt = 0, updatedAt = 5,
                              status = Success, variables = ''a''\<rparr>,
                         listeners = []\<rparr>),
              nextAddr = Suc 0, timers = \<lambda>x. None, nextTimerId = Suc 0,
              promises =
                (\<lambda>p. Unsettled)
                (0 := Resolved (Some (Object (Suc 0) [''Alice'']))),
              nextPromiseId = Suc 0, inflight = \<lambda>x. None,
              fetcherCalls = [(''getUsers'', ''a'')],
              observers = \<lambda>ob. blankObserver,
              nextObserverId =
                0\<rparr>"
  unfolding successWorld_def
  by (simp add: loadingWorld_eq cache_defs del: view_simps)

lemma watcher_found:
  "findCache (\<lambda>v. v) (cp_variables watcherProps) successWorld = Some 0"
  by (simp add: watcherProps_def successWorld_eq findCache_def)

lemma watchedWorld_eq:
  "watchedWorld =
     \<lparr>now = 5,
              query =
                \<lparr>name = ''users'', query_fetcher = ''getUsers'',
                   query_clearTime = Finite 1000, caches = [''a'' \<mapsto> 0]\<rparr>,
              heap =
                (\<lambda>a. blankCache)
                (0 := \<lparr>variablesHash = ''a'', clearTime = Finite 1000,
                         usedCount = 1, clearTimeoutId = None,
                         fetcher = ''getUsers'',
                         store =
                           \<lparr>data = Some (Object (Suc 0) [''Alice'']),
                              error = None, dataUpdatedAt = 5,
                              errorUpdatedAt = 0, updatedAt = 5,
                              status = Success, variables = ''a''\<rparr>,
                         listeners = [ObserverListener 0]\<rparr>),
              nextAddr = Suc 0, timers = \<lambda>x. None, nextTimerId = Suc 0,
              promises =
                (\<lambda>p. Unsettled)
                (0 := Resolved (Some (Object (Suc 0) [''Alice''])),
                   Suc 0 := Resolved (Some (Object (Suc 0) [''Alice'']))),
              nextPromiseId = Suc (Suc 0), inflight = \<lambda>x. None,
              fetcherCalls = [(''getUsers'', ''a'')],
              observers =
                (\<lambda>ob. blankObserver)
                (0 := \<lparr>cache = 0, unsubscribeStore = Some (ObserverListener 0),
                         refetchTimeoutId = None,
                         props =
                           \<lparr>select = reverseNames, refetchInterval = Finite 0,
                              cacheTime = Infinity, refetchOnMount = False\<rparr>,
                         ostate =
                           \<lparr>obs_data = None, obs_error = None,
                              originalData = Some (Object (Suc 0) [''Alice'']),
                              isSuccess = False, isError = False,
                              isLoading = False, isSettled = False,
                              isPending = False, obs_isFresh = True,
                              obs_updatedAt = 5, obs_dataUpdatedAt = 5,
                              obs_errorUpdatedAt = 0\<rparr>,
                         selectCalls = []\<rparr>),
              nextObserverId = Suc 0\<rparr>"
  unfolding watchedWorld_def newQueryObserver_found_eq [OF watcher_found]
  by (simp add: successWorld_eq cache_defs observer_defs del: view_simps)

lemma poller_found:
  "findCache (\<lambda>v. v) (cp_variables pollingProps) successWorld = Some 0"
  by (simp add: pollingProps_def successWorld_eq findCache_def)

lemma pollingWorld_eq:
  "pollingWorld =
     \<lparr>now = 5,
              query =
                \<lparr>name = ''users'', query_fetcher = ''getUsers'',
                   query_clearTime = Finite 1000, caches = [''a'' \<mapsto> 0]\<rparr>,
              heap =
                (\<lambda>a. blankCache)
                (0 := \<lparr>variablesHash = ''a'', clearTime = Finite 1000,
                         usedCount = 1, clearTimeoutId = None,
                         fetcher = ''getUsers'',
                         store =
                           \<lparr>data = Some (Object (Suc 0) [''Alice'']),
                              error = None, dataUpdatedAt = 5,
                              errorUpdatedAt = 0, updatedAt = 5,
                              status = Success, variables = ''a''\<rparr>,
                         listeners = [ObserverListener 0]\<rparr>),
              nextAddr = Suc 0,
              timers =
                [Suc 0 \<mapsto> \<lparr>callback = RefetchCallback 0, delay = Finite 3000\<rparr>],
              nextTimerId = Suc (Suc 0),
              promises =
                (\<lambda>p. Unsettled)
                (0 := Resolved (Some (Object (Suc 0) [''Alice''])),
                   Suc 0 := Resolved (Some (Object (Suc 0) [''Alice'']))),
              nextPromiseId = Suc (Suc 0), inflight = \<lambda>x. None,
              fetcherCalls = [(''getUsers'', ''a'')],
              observers =
                (\<lambda>ob. blankObserver)
                (0 := \<lparr>cache = 0, unsubscribeStore = Some (ObserverListener 0),
                         refetchTimeoutId = Some (Suc 0),
                         props =
                           \<lparr>select = Some, refetchInterval = Finite 3000,
                              cacheTime = Infinity, refetchOnMount = False\<rparr>,
                         ostate =
                           \<lparr>obs_data = None, obs_error = None,
                              originalData = Some (Object (Suc 0) [''Alice'']),
                              isSuccess = False, isError = False,
                              isLoading = False, isSettled = False,
                              isPending = False, obs_isFresh = True,
                              obs_updatedAt = 5, obs_dataUpdatedAt = 5,
                              obs_errorUpdatedAt = 0\<rparr>,
                         selectCalls = []\<rparr>),
              nextObserverId = Suc 0\<rparr>"
  unfolding pollingWorld_def newQueryObserver_found_eq [OF poller_found]
  by (simp add: successWorld_eq cache_defs observer_defs del: view_simps)



lemma thrownWorld_eq:
  "thrownWorld =
     \<lparr>now = 5,
              query =
                \<lparr>name = ''users'', query_fetcher = ''getUsers'',
                   query_clearTime = Finite 1000, caches = [''a'' \<mapsto> 0]\<rparr>,
              heap =
                (\<lambda>a. blankCache)
                (0 := \<lparr>variablesHash = ''a'', clearTime = Finite 1000,
                         usedCount = 0, clearTimeoutId = None,
                         fetcher = ''getUsers'',
                         store =
                           \<lparr>data = None, error = None, dataUpdatedAt = 0,
                              errorUpdatedAt = 0, updatedAt = 0,
                              status = Loading, variables = ''a''\<rparr>,
                         listeners = []\<rparr>),
              nextAddr = Suc 0, timers = \<lambda>x. None, nextTimerId = Suc 0,
              promises = (\<lambda>p. Unsettled)(0 := Rejected (Some (Reason ''boom''))),
              nextPromiseId = Suc 0, inflight = \<lambda>x. None,
              fetcherCalls = [(''getUsers'', ''a'')],
              observers = \<lambda>ob. blankObserver,
              nextObserverId =
                0\<rparr>"
  unfolding thrownWorld_def
  by (simp add: entryWorld_eq cache_defs del: view_simps)

lemma stuckWorld_eq:
  "stuckWorld =
     \<lparr>now = 5,
              query =
                \<lparr>name = ''users'', query_fetcher = ''getUsers'',
                   query_clearTime = Finite 1000, caches = [''a'' \<mapsto> 0]\<rparr>,
              heap =
                (\<lambda>a. blankCache)
                (0 := \<lparr>variablesHash = ''a'', clearTime = Finite 1000,
                         usedCount = 0, clearTimeoutId = None,
                         fetcher = ''getUsers'',
                         store =
                           \<lparr>data = None, error = None, dataUpdatedAt = 0,
                              errorUpdatedAt = 0, updatedAt = 0,
                              status = Loading, variables = ''a''\<rparr>,
                         listeners = [Waiter (Suc 0)]\<rparr>),
              nextAddr = Suc 0, timers = \<lambda>x. None, nextTimerId = Suc 0,
              promises =
                (\<lambda>p. Unsettled)
                (0 := Rejected (Some (Reason ''boom'')), Suc 0 := Unsettled),
              nextPromiseId = Suc (Suc 0), inflight = \<lambda>x. None,
              fetcherCalls = [(''getUsers'', ''a'')],
              observers = \<lambda>ob. blankObserver,
              nextObserverId =
                0\<rparr>"
  unfolding stuckWorld_def
  by (simp add: thrownWorld_eq cache_defs del: view_simps)







lemma observed_found:
  "findCache (\<lambda>v. v) (cp_variables watcherProps) entryWorld = Some 0"
  by (simp add: watcherProps_def entryWorld_eq findCache_def)

lemma observedWorld_eq:
  "observedWorld =
     \<lparr>now = 5,
              query =
                \<lparr>name = ''users'', query_fetcher = ''getUsers'',
                   query_clearTime = Finite 1000, caches = [''a'' \<mapsto> 0]\<rparr>,
              heap =
                (\<lambda>a. blankCache)
                (0 := \<lparr>variablesHash = ''a'', clearTime = Finite 1000,
                         usedCount = 1, clearTimeoutId = None,
                         fetcher = ''getUsers'',
                         store =
                           \<lparr>data = None, error = None, dataUpdatedAt = 0,
                              errorUpdatedAt = 0, updatedAt = 0,
                              status = Loading, variables = ''a''\<rparr>,
                         listeners = [ObserverListener 0]\<rparr>),
              nextAddr = Suc 0, timers = \<lambda>x. None, nextTimerId = Suc 0,
              promises = (\<lambda>p. Unsettled)(0 := Unsettled), nextPromiseId = Suc 0,
              inflight = [0 \<mapsto> 0], fetcherCalls = [(''getUsers'', ''a'')],
              observers =
                (\<lambda>ob. blankObserver)
                (0 := \<lparr>cache = 0, unsubscribeStore = Some (ObserverListener 0),
                         refetchTimeoutId = None,
                         props =
                           \<lparr>select = reverseNames, refetchInterval = Finite 0,
                              cacheTime = Infinity, refetchOnMount = False\<rparr>,
                         ostate =
                           \<lparr>obs_data = None, obs_error = None,
                              originalData = None, isSuccess = False,
                              isError = False, isLoading = True,
                              isSettled = False, isPending = False,
                              obs_isFresh = True, obs_updatedAt = 0,
                              obs_dataUpdatedAt = 0, obs_errorUpdatedAt = 0\<rparr>,
                         selectCalls = []\<rparr>),
              nextObserverId =
                Suc 0\<rparr>"
  unfolding observedWorld_def newQueryObserver_found_eq [OF observed_found]
  by (simp add: entryWorld_eq cache_defs observer_defs del: view_simps)

lemma nanWorld_eq:
  "nanWorld =
     \<lparr>now = 5,
              query =
                \<lparr>name = ''users'', query_fetcher = ''getUsers'',
                   query_clearTime = Finite 1000, caches = [''a'' \<mapsto> 0]\<rparr>,
              heap =
                (\<lambda>a. blankCache)
                (0 := \<lparr>variablesHash = ''a'', clearTime = Finite 1000,
                         usedCount = 1, clearTimeoutId = None,
                         fetcher = ''getUsers'',
                         store =
                           \<lparr>data = Some NotANumber, error = None,
                              dataUpdatedAt = 5, errorUpdatedAt = 0,
                              updatedAt = 5, status = Success,
                              variables = ''a''\<rparr>,
                         listeners = [ObserverListener 0]\<rparr>),
              nextAddr = Suc 0, timers = \<lambda>x. None, nextTimerId = Suc 0,
              promises = (\<lambda>p. Unsettled)(0 := Resolved (Some NotANumber)),
              nextPromiseId = Suc 0, inflight = \<lambda>x. None,
              fetcherCalls = [(''getUsers'', ''a'')],
              observers =
                (\<lambda>ob. blankObserver)
                (0 := \<lparr>cache = 0, unsubscribeStore = Some (ObserverListener 0),
                         refetchTimeoutId = None,
                         props =
                           \<lparr>select = reverseNames, refetchInterval = Finite 0,
                              cacheTime = Infinity, refetchOnMount = False\<rparr>,
                         ostate =
                           \<lparr>obs_data = Some NotANumber, obs_error = None,
                              originalData = Some NotANumber, isSuccess = True,
                              isError = False, isLoading = False,
                              isSettled = True, isPending = False,
                              obs_isFresh = True, obs_updatedAt = 5,
                              obs_dataUpdatedAt = 5, obs_errorUpdatedAt = 0\<rparr>,
                         selectCalls = [NotANumber]\<rparr>),
              nextObserverId =
                Suc 0\<rparr>"
  unfolding nanWorld_def
  by (simp add: observedWorld_eq cache_defs observer_defs del: view_simps)

lemma nanRefetchedWorld_eq:
  "nanRefetchedWorld =
     \<lparr>now = 5,
              query =
                \<lparr>name = ''users'', query_fetcher = ''getUsers'',
                   query_clearTime = Finite 1000, caches = [''a'' \<mapsto> 0]\<rparr>,
              heap =
                (\<lambda>a. blankCache)
                (0 := \<lparr>variablesHash = ''a'', clearTime = Finite 1000,
                         usedCount = 1, clearTimeoutId = None,
                         fetcher = ''getUsers'',
                         store =
                           \<lparr>data = Some NotANumber, error = None,
                              dataUpdatedAt = 5, errorUpdatedAt = 0,
                              updatedAt = 5, status = Loading,
                              variables = ''a''\<rparr>,
                         listeners = [ObserverListener 0]\<rparr>),
              nextAddr = Suc 0, timers = \<lambda>x. None, nextTimerId = Suc 0,
              promises =
                (\<lambda>p. Unsettled)
                (0 := Resolved (Some NotANumber), Suc 0 := Unsettled),
              nextPromiseId = Suc (Suc 0), inflight = [Suc 0 \<mapsto> 0],
              fetcherCalls = [(''getUsers'', ''a''), (''getUsers'', ''a'')],
              observers =
                (\<lambda>ob. blankObserver)
                (0 := \<lparr>cache = 0, unsubscribeStore = Some (ObserverListener 0),
                         refetchTimeoutId = None,
                         props =
                           \<lparr>select = reverseNames, refetchInterval = Finite 0,
                              cacheTime = Infinity, refetchOnMount = False\<rparr>,
                         ostate =
                           \<lparr>obs_data = Some NotANumber, obs_error = None,
                              originalData = Some NotANumber, isSuccess = True,
                              isError = False, isLoading = True,
                              isSettled = True, isPending = False,
                              obs_isFresh = True, obs_updatedAt = 5,
                              obs_dataUpdatedAt = 5, obs_errorUpdatedAt = 0\<rparr>,
                         selectCalls = [NotANumber, NotANumber]\<rparr>),
              nextObserverId = Suc 0\<rparr>"
  unfolding nanRefetchedWorld_def
  by (simp add: nanWorld_eq cache_defs observer_defs del: view_simps)

lemma startedWorld_eq:
  "startedWorld =
     \<lparr>now = 5,
              query =
                \<lparr>name = ''users'', query_fetcher = ''getUsers'',
                   query_clearTime = Finite 1000, caches = [''a'' \<mapsto> 0]\<rparr>,
              heap =
                (\<lambda>a. blankCache)
                (0 := \<lparr>variablesHash = ''a'', clearTime = Finite 1000,
                         usedCount = 0, clearTimeoutId = None,
                         fetcher = ''getUsers'',
                         store =
                           \<lparr>data = None, error = None, dataUpdatedAt = 0,
                              errorUpdatedAt = 0, updatedAt = 0,
                              status = Loading, variables = ''a''\<rparr>,
                         listeners = []\<rparr>),
              nextAddr = Suc 0, timers = \<lambda>x. None, nextTimerId = Suc 0,
              promises = \<lambda>p. Unsettled, nextPromiseId = 0, inflight = \<lambda>x. None,
              fetcherCalls = [], observers = \<lambda>ob. blankObserver,
              nextObserverId =
                0\<rparr>"
  unfolding startedWorld_def
  by (simp add: entryWorld_eq cache_defs del: view_simps)

lemma attachedWorld_eq:
  "attachedWorld =
     \<lparr>now = 5,
              query =
                \<lparr>name = ''users'', query_fetcher = ''getUsers'',
                   query_clearTime = Finite 1000, caches = [''a'' \<mapsto> 0]\<rparr>,
              heap =
                (\<lambda>a. blankCache)
                (0 := \<lparr>variablesHash = ''a'', clearTime = Finite 1000,
                         usedCount = 0, clearTimeoutId = None,
                         fetcher = ''getUsers'',
                         store =
                           \<lparr>data = None, error = None, dataUpdatedAt = 0,
                              errorUpdatedAt = 0, updatedAt = 0,
                              status = Loading, variables = ''a''\<rparr>,
                         listeners = [Waiter 0]\<rparr>),
              nextAddr = Suc 0, timers = \<lambda>x. None, nextTimerId = Suc 0,
              promises = (\<lambda>p. Unsettled)(0 := Unsettled), nextPromiseId = Suc 0,
              inflight = \<lambda>x. None, fetcherCalls = [],
              observers = \<lambda>ob. blankObserver,
              nextObserverId =
                0\<rparr>"
  unfolding attachedWorld_def
  by (simp add: startedWorld_eq cache_defs del: view_simps)

lemma entryWorld_simps:
  "store (heap entryWorld 0) = initialState ''a''"
  "usedCount (heap entryWorld 0) = 0"
  "clearTime (heap entryWorld 0) = Finite 1000"
  "clearTimeoutId (heap entryWorld 0) = None"
  "timers entryWorld = Map.empty"
  "nextTimerId entryWorld = 1"
  "nextAddr entryWorld = 1"
  "caches (query entryWorld) ''a'' = Some 0"
  "now entryWorld = 5"
  by (simp_all add: entryWorld_eq initialState_def)

lemma loadingWorld_simps:
  "status (store (heap loadingWorld 0)) = Loading"
  "inflight loadingWorld 0 = Some 0"
  "nextPromiseId loadingWorld = 1"
  "nextAddr loadingWorld = 1"
  "fetcherCalls loadingWorld = [(''getUsers'', ''a'')]"
  by (simp_all add: loadingWorld_eq)

lemma successWorld_simps:
  "store (heap successWorld 0) =
     \<lparr>data = Some (Object 1 [''Alice'']), error = None, dataUpdatedAt = 5, errorUpdatedAt = 0,
      updatedAt = 5, status = Success, variables = ''a''\<rparr>"
  "promises successWorld 0 = Resolved (Some (Object 1 [''Alice'']))"
  "now successWorld = 5"
  "findCache (\<lambda>v. v) ''a'' successWorld = Some 0"
  "nextObserverId successWorld = 0"
  by (simp_all add: successWorld_eq findCache_def)


section \<open>Calls on a loading entry (C1)\<close>

text \<open>
  C1 as stated fails. The status \<open>loading\<close> is a field that the public method
  \<open>startFetching\<close> sets; the entry keeps no handle of a fetch in flight. After a direct
  call of \<open>startFetching\<close> on the new entry of the concrete run, the entry is loading while
  the fetcher has never been invoked and nothing is in flight. A \<open>fetch\<close> on it attaches
  its caller all the same: the fetcher is still not invoked, so not one invocation occurs
  but none, and the caller's promise is pending with no fetcher outcome to observe. What
  settles it is the next broadcast of the store with a settled status, here a direct call
  of \<open>setData\<close>.
\<close>

theorem loading_without_fetch_in_flight_counterexample:
  "status (store (heap startedWorld 0)) = Loading
   \<and> fetcherCalls startedWorld = []
   \<and> dom (inflight startedWorld) = {}
   \<and> fst (fetch 0 ''a'' None ReturnsPromise startedWorld) = 0
   \<and> status (store (heap attachedWorld 0)) = Loading
   \<and> fetcherCalls attachedWorld = []
   \<and> dom (inflight attachedWorld) = {}
   \<and> promises attachedWorld 0 = Unsettled
   \<and> promises (fetcherSettles 0 (Fulfills (Some (Object 1 [''Alice'']))) attachedWorld) 0
       = Unsettled
   \<and> promises (setData 0 (Object 2 [''Bob'']) attachedWorld) 0
       = Resolved (Some (Object 2 [''Bob'']))"
proof -
  have "fst (fetch 0 ''a'' None ReturnsPromise startedWorld) = 0"
    by (simp add: startedWorld_eq)
  moreover have "promises (fetcherSettles 0 (Fulfills (Some (Object 1 [''Alice'']))) attachedWorld) 0
       = Unsettled"
    by (simp add: attachedWorld_eq fetcherSettles_def)
  moreover have "promises (setData 0 (Object 2 [''Bob'']) attachedWorld) 0
       = Resolved (Some (Object 2 [''Bob'']))"
    by (simp add: setData_def setState_promises attachedWorld_eq)
  ultimately show ?thesis
    by (simp add: startedWorld_eq attachedWorld_eq)
qed

text \<open>
  The entry is loading with nothing in flight also after a \<open>fetch\<close> whose fetcher throws
  before it returns its promise: \<open>startFetching\<close> has run, the invocation is recorded, the
  caller's promise is rejected with the thrown value, and no handler sets the status
  again. A second \<open>fetch\<close> attaches its caller, whose promise stays pending.
\<close>

lemma fetch_fetcher_throws_at_once:
  "status (store (heap thrownWorld 0)) = Loading
   \<and> fetcherCalls thrownWorld = [(''getUsers'', ''a'')]
   \<and> dom (inflight thrownWorld) = {}
   \<and> promises thrownWorld 0 = Rejected (Some (Reason ''boom''))
   \<and> fst (fetch 0 ''a'' None ReturnsPromise thrownWorld) = 1
   \<and> fetcherCalls stuckWorld = [(''getUsers'', ''a'')]
   \<and> dom (inflight stuckWorld) = {}
   \<and> promises stuckWorld 1 = Unsettled"
proof -
  have "fst (fetch 0 ''a'' None ReturnsPromise thrownWorld) = 1"
    by (simp add: thrownWorld_eq)
  then show ?thesis
    by (simp add: thrownWorld_eq stuckWorld_eq)
qed

text \<open>
  C1, amended. On an entry whose status is \<open>loading\<close>, any sequence of \<open>fetch\<close> and
  \<open>refetch\<close> calls (\<open>refetch\<close> is \<open>fetch\<close> with \<open>cacheTime = 0\<close>) never invokes the fetcher,
  whatever the fetcher would do: no invocation is recorded, the calls in flight and the
  entry's state are as before, and each caller gets a new promise, pending, whose listener
  is subscribed to the entry's store. The next broadcast of the store whose status is
  \<open>success\<close> or \<open>error\<close> settles all these promises alike, with the data or the error of
  the broadcast state; any other broadcast leaves them pending. When a call of \<open>fetch\<close> is
  in flight for the entry and its fetcher settles, that broadcast is the one its
  continuation makes: the promise of the call in flight and the promises of all these
  callers are settled with the same outcome, the data the fetcher resolved to or the error
  it rejected with (the contract error when it resolved to \<open>undefined\<close>), and the
  settlement invokes no fetcher either.
\<close>

theorem loading_entry_callers_attach_and_share_the_outcome:
  assumes loading: "status (store (heap w a)) = Loading"
  shows "fetcherCalls (snd (fetchAll a cs w)) = fetcherCalls w
         \<and> inflight (snd (fetchAll a cs w)) = inflight w
         \<and> store (heap (snd (fetchAll a cs w)) a) = store (heap w a)
         \<and> fst (fetchAll a cs w) = [nextPromiseId w ..< nextPromiseId w + length cs]
         \<and> (\<forall>p \<in> set (fst (fetchAll a cs w)).
               promises (snd (fetchAll a cs w)) p = Unsettled
               \<and> Waiter p \<in> set (listeners (heap (snd (fetchAll a cs w)) a)))
         \<and> (\<forall>f. \<forall>p \<in> set (fst (fetchAll a cs w)).
               promises (setState a f (snd (fetchAll a cs w))) p
                 = waiterOutcome (f (store (heap w a))))
         \<and> (\<forall>p0 r. inflight w p0 = Some a \<longrightarrow>
               (\<forall>p \<in> set (p0 # fst (fetchAll a cs w)).
                  promises (fetcherSettles p0 r (snd (fetchAll a cs w))) p = settledWith r)
               \<and> fetcherCalls (fetcherSettles p0 r (snd (fetchAll a cs w))) = fetcherCalls w)"
proof -
  let ?ps = "fst (fetchAll a cs w)"
  let ?w = "snd (fetchAll a cs w)"
  note f = fetchAll_loading [OF loading, of cs]
  from f have ps: "?ps = [nextPromiseId w ..< nextPromiseId w + length cs]" by blast
  from f have calls: "fetcherCalls ?w = fetcherCalls w" by blast
  from f have infl: "inflight ?w = inflight w" by blast
  from f have st: "store (heap ?w a) = store (heap w a)" by blast
  from f have waiting: "\<forall>p. nextPromiseId w \<le> p \<and> p < nextPromiseId w + length cs \<longrightarrow>
               promises ?w p = Unsettled \<and> Waiter p \<in> set (listeners (heap ?w a))" by blast
  have attached: "\<forall>p \<in> set ?ps. promises ?w p = Unsettled
                     \<and> Waiter p \<in> set (listeners (heap ?w a))"
    using waiting by (simp add: ps)
  have broadcast: "\<forall>f. \<forall>p \<in> set ?ps.
      promises (setState a f ?w) p = waiterOutcome (f (store (heap w a)))"
    using attached by (simp add: setState_promises st)
  have shared: "\<forall>p0 r. inflight w p0 = Some a \<longrightarrow>
               (\<forall>p \<in> set (p0 # ?ps). promises (fetcherSettles p0 r ?w) p = settledWith r)
               \<and> fetcherCalls (fetcherSettles p0 r ?w) = fetcherCalls w"
  proof (intro allI impI)
    fix p0 r
    assume "inflight w p0 = Some a"
    then have p0: "inflight ?w p0 = Some a" using infl by simp
    show "(\<forall>p \<in> set (p0 # ?ps). promises (fetcherSettles p0 r ?w) p = settledWith r)
               \<and> fetcherCalls (fetcherSettles p0 r ?w) = fetcherCalls w"
      using attached calls by (simp add: fetcherSettles_promises [OF p0])
  qed
  from ps calls infl st attached broadcast shared show ?thesis by blast
qed

theorem loading_entry_callers_attach_and_share_the_outcome_witness:
  "status (store (heap loadingWorld 0)) = Loading
   \<and> inflight loadingWorld 0 = Some 0
   \<and> fetcherCalls (snd (fetchAll 0 [(''a'', None, ReturnsPromise), (''a'', Some (Finite 0), Throws None)]
         loadingWorld)) = [(''getUsers'', ''a'')]
   \<and> fst (fetchAll 0 [(''a'', None, ReturnsPromise), (''a'', Some (Finite 0), Throws None)]
         loadingWorld) = [1, 2]
   \<and> list_all (\<lambda>p. promises (fetcherSettles 0 (Fulfills (Some (Object 1 [''Alice''])))
         (snd (fetchAll 0 [(''a'', None, ReturnsPromise), (''a'', Some (Finite 0), Throws None)]
            loadingWorld))) p
       = Resolved (Some (Object 1 [''Alice''])))
       [0, 1, 2]
   \<and> list_all (\<lambda>p. promises (setState 0 (setError_state 7 None)
         (snd (fetchAll 0 [(''a'', None, ReturnsPromise), (''a'', Some (Finite 0), Throws None)]
            loadingWorld))) p
       = Rejected None)
       [1, 2]"
proof -
  let ?cs = "[(''a'', None, ReturnsPromise), (''a'', Some (Finite 0), Throws None)]"
  let ?r = "Fulfills (Some (Object 1 [''Alice'']))"
  have h1: "status (store (heap loadingWorld 0)) = Loading"
    by (simp add: loadingWorld_simps)
  have h2: "inflight loadingWorld 0 = Some 0"
    by (simp add: loadingWorld_simps)
  note t = loading_entry_callers_attach_and_share_the_outcome [OF h1, of ?cs]
  note calls = t [THEN conjunct1]
  note ps = t [THEN conjunct2, THEN conjunct2, THEN conjunct2, THEN conjunct1]
  note all_broadcasts =
    t [THEN conjunct2, THEN conjunct2, THEN conjunct2, THEN conjunct2, THEN conjunct2,
       THEN conjunct1]
  note all_settlements =
    t [THEN conjunct2, THEN conjunct2, THEN conjunct2, THEN conjunct2, THEN conjunct2,
       THEN conjunct2]
  have ps': "fst (fetchAll 0 ?cs loadingWorld) = [1, 2]"
    unfolding ps by (simp add: loadingWorld_simps upt_rec)
  from all_settlements h2 have "\<forall>p \<in> set (0 # fst (fetchAll 0 ?cs loadingWorld)).
      promises (fetcherSettles 0 ?r (snd (fetchAll 0 ?cs loadingWorld))) p = settledWith ?r"
    by blast
  then have same: "\<forall>p \<in> set [0, 1, 2].
      promises (fetcherSettles 0 ?r (snd (fetchAll 0 ?cs loadingWorld))) p
        = Resolved (Some (Object 1 [''Alice'']))"
    unfolding ps' by simp
  from all_broadcasts have "\<forall>p \<in> set (fst (fetchAll 0 ?cs loadingWorld)).
      promises (setState 0 (setError_state 7 None) (snd (fetchAll 0 ?cs loadingWorld))) p
        = waiterOutcome (setError_state 7 None (store (heap loadingWorld 0)))"
    by blast
  then have broadcast: "\<forall>p \<in> set [1, 2].
      promises (setState 0 (setError_state 7 None) (snd (fetchAll 0 ?cs loadingWorld))) p
        = Rejected None"
    unfolding ps' by simp
  from h1 h2 calls ps' same broadcast show ?thesis
    by (simp add: loadingWorld_simps list_all_iff del: fetchAll.simps)
qed


section \<open>The state invariant of an entry (C2)\<close>

text \<open>
  Whatever the three methods are called with, a state with status \<open>success\<close> has data,
  no error and \<open>errorUpdatedAt = 0\<close>, and a state with status \<open>pending\<close> has neither data
  nor error.
\<close>

lemma reachable_state_success_pending:
  "reachable_state s \<Longrightarrow>
     (status s = Success \<longrightarrow> data s \<noteq> None \<and> error s = None \<and> errorUpdatedAt s = 0)
     \<and> (status s = Pending \<longrightarrow> data s = None \<and> error s = None)"
  by (induction rule: reachable_state.induct)
     (simp_all add: initialState_def startFetching_state_def setData_state_def setError_state_def)

text \<open>
  C2. The claim: every state reachable through \<open>startFetching\<close>, \<open>setData\<close> and \<open>setError\<close>
  with status \<open>error\<close> has an error. \<open>setError\<close> accepts \<open>any\<close> and stores it unchecked, so
  the state reached by \<open>setError(undefined)\<close> has status \<open>error\<close> and no error. \<open>fetch\<close> makes
  this call when the fetcher rejects with \<open>undefined\<close>: in the concrete run, the entry
  whose fetcher is in flight ends with status \<open>error\<close> and no error, and the caller's
  promise is rejected with \<open>undefined\<close>.
\<close>

theorem setError_undefined_gives_error_status_without_error:
  "reachable_state (setError_state t None (initialState v))
   \<and> status (setError_state t None (initialState v)) = Error
   \<and> error (setError_state t None (initialState v)) = None
   \<and> status (store (heap (fetcherSettles 0 (Rejects None) loadingWorld) 0)) = Error
   \<and> error (store (heap (fetcherSettles 0 (Rejects None) loadingWorld) 0)) = None
   \<and> promises (fetcherSettles 0 (Rejects None) loadingWorld) 0 = Rejected None"
proof -
  have "reachable_state (setError_state t None (initialState v))"
    by (rule rs_setError) (rule rs_initial)
  moreover have "inflight loadingWorld 0 = Some 0"
    by (simp add: loadingWorld_simps)
  ultimately show ?thesis
    by (simp add: setError_state_def fetcherSettles_inflight complete_def setError_def)
qed


section \<open>A fresh settled entry answers from the cache (C3)\<close>

text \<open>
  C3. For an entry whose status is \<open>success\<close> or \<open>error\<close> (so not \<open>loading\<close>) and that is fresh
  for the window \<open>options?.cacheTime ?? Infinity\<close>, the promise that \<open>fetch\<close> returns is
  already settled when \<open>fetch\<close> returns: resolved with the cached data on \<open>success\<close>,
  rejected with the cached error on \<open>error\<close>. The fetcher is not invoked, whatever it
  would do: no fetcher call is recorded or left in
  flight, and the heap (every entry's state, listeners and counters), the observers, the
  timers and the table are unchanged.
\<close>

theorem fetch_fresh_settled_answers_from_cache:
  assumes terminal: "status (store (heap w a)) = Success \<or> status (store (heap w a)) = Error"
      and fresh: "isFresh a (case c of None \<Rightarrow> Infinity | Some t \<Rightarrow> t) w"
  shows "promises (snd (fetch a vars c call w)) (fst (fetch a vars c call w)) =
           (if status (store (heap w a)) = Success then Resolved (data (store (heap w a)))
            else Rejected (error (store (heap w a))))
         \<and> heap (snd (fetch a vars c call w)) = heap w
         \<and> fetcherCalls (snd (fetch a vars c call w)) = fetcherCalls w
         \<and> inflight (snd (fetch a vars c call w)) = inflight w
         \<and> observers (snd (fetch a vars c call w)) = observers w
         \<and> timers (snd (fetch a vars c call w)) = timers w
         \<and> query (snd (fetch a vars c call w)) = query w"
proof (cases "status (store (heap w a)) = Success")
  case True
  show ?thesis by (simp add: fetch_hit_success [OF fresh True] True)
next
  case False
  with terminal have err: "status (store (heap w a)) = Error" by simp
  show ?thesis by (simp add: fetch_hit_error [OF fresh err] err)
qed

theorem fetch_fresh_settled_answers_from_cache_witness:
  "status (store (heap successWorld 0)) = Success
   \<and> isFresh 0 Infinity successWorld
   \<and> promises (snd (fetch 0 ''a'' None ReturnsPromise successWorld)) (fst (fetch 0 ''a'' None ReturnsPromise successWorld)) =
       Resolved (Some (Object 1 [''Alice'']))
   \<and> heap (snd (fetch 0 ''a'' None ReturnsPromise successWorld)) = heap successWorld
   \<and> fetcherCalls (snd (fetch 0 ''a'' None ReturnsPromise successWorld)) = fetcherCalls successWorld"
proof -
  have h1: "status (store (heap successWorld 0)) = Success \<or> status (store (heap successWorld 0)) = Error"
    by (simp add: successWorld_simps)
  have h2: "isFresh 0 (case None of None \<Rightarrow> Infinity | Some t \<Rightarrow> t) successWorld"
    by (simp add: isFresh_def)
  show ?thesis
    using h2 fetch_fresh_settled_answers_from_cache [OF h1 h2, of "''a''" ReturnsPromise]
    by (simp add: successWorld_simps)
qed


section \<open>The eviction timer (C4)\<close>





section \<open>Registering a query (C5)\<close>

text \<open>
  C5 as stated fails: registering \<open>users\<close> a second time, with another fetcher and no
  eviction delay, returns a Query with the later fetcher and the default delay, and the
  registry maps the name to it instead of the first Query.
\<close>

theorem createQuery_second_registration_counterexample:
  "findQuery ''users'' (snd (createQuery usersProps emptyClient))
     = Some (fst (createQuery usersProps emptyClient))
   \<and> fst (createQuery otherProps (snd (createQuery usersProps emptyClient)))
       \<noteq> fst (createQuery usersProps emptyClient)
   \<and> query_fetcher (fst (createQuery otherProps (snd (createQuery usersProps emptyClient))))
       = ''getAdmins''
   \<and> query_clearTime (fst (createQuery otherProps (snd (createQuery usersProps emptyClient))))
       = Finite 300000
   \<and> findQuery ''users'' (snd (createQuery otherProps (snd (createQuery usersProps emptyClient))))
       \<noteq> Some (fst (createQuery usersProps emptyClient))"
  by (simp add: createQuery_def findQuery_def newQuery_def usersProps_def otherProps_def
        emptyClient_def DEFAULT_CLEAR_TIME_def Let_def)

text \<open>
  C5, amended. \<open>createQuery\<close> always constructs a new Query from the props it is given,
  returns it, and maps the name to it, replacing any Query registered under that name; the
  other names are unchanged.
\<close>

theorem createQuery_installs_new_query:
  "createQuery p c = (newQuery p, c\<lparr>queries := (queries c)(props_name p \<mapsto> newQuery p)\<rparr>)
   \<and> findQuery (props_name p) (snd (createQuery p c)) = Some (newQuery p)
   \<and> query_fetcher (fst (createQuery p c)) = props_fetcher p"
  by (simp add: createQuery_def findQuery_def newQuery_def Let_def)


section \<open>The reference count (C6)\<close>

text \<open>
  C6 as stated fails: \<open>unuse\<close> on a new entry, whose count is 0, stores the count -1.
\<close>

theorem unuse_at_zero_counterexample:
  "usedCount (heap entryWorld 0) = 0 \<and> usedCount (heap (unuse 0 entryWorld) 0) = - 1"
  by (simp add: entryWorld_simps unuse_def setTimeout_def Let_def)

text \<open>
  C6, amended. \<open>unuse\<close> has no failure: it decrements the count whatever its value. From
  a count of 0 or less the result is negative, and then the call does nothing else: no
  timer is armed and the table is unchanged.
\<close>

theorem unuse_decrements_unconditionally:
  "usedCount (heap (unuse a w) a) = usedCount (heap w a) - 1
   \<and> (usedCount (heap w a) \<le> 0 \<longrightarrow>
        usedCount (heap (unuse a w) a) < 0
        \<and> timers (unuse a w) = timers w
        \<and> clearTimeoutId (heap (unuse a w) a) = clearTimeoutId (heap w a)
        \<and> query (unuse a w) = query w)"
  by (simp add: unuse_def setTimeout_def Let_def)

theorem unuse_decrements_unconditionally_witness:
  "usedCount (heap entryWorld 0) \<le> 0
   \<and> usedCount (heap (unuse 0 entryWorld) 0) = - 1
   \<and> timers (unuse 0 entryWorld) = timers entryWorld"
  using unuse_decrements_unconditionally [of 0 entryWorld]
  by (simp add: entryWorld_simps)


section \<open>A fetcher that resolves to undefined (C7)\<close>

text \<open>
  C7. When the fetcher of a call in flight resolves to \<open>undefined\<close>, the promise of the call
  is rejected with the contract error, the entry's status becomes \<open>error\<close> with that error,
  and the entry's data are left as they were. Whatever the fetcher settles with, the entry
  does not end with status \<open>success\<close> and absent data.
\<close>

theorem fetcher_undefined_is_rejected:
  assumes "inflight w p = Some a"
  shows "promises (fetcherSettles p (Fulfills None) w) p = Rejected (Some undefinedDataError)
         \<and> status (store (heap (fetcherSettles p (Fulfills None) w) a)) = Error
         \<and> error (store (heap (fetcherSettles p (Fulfills None) w) a)) = Some undefinedDataError
         \<and> data (store (heap (fetcherSettles p (Fulfills None) w) a)) = data (store (heap w a))
         \<and> \<not> (status (store (heap (fetcherSettles p r w) a)) = Success
                \<and> data (store (heap (fetcherSettles p r w) a)) = None)"
proof -
  have "\<not> (status (store (heap (fetcherSettles p r w) a)) = Success
            \<and> data (store (heap (fetcherSettles p r w) a)) = None)"
    by (simp add: fetcherSettles_inflight [OF assms] complete_def setError_def setData_def
          setError_state_def setData_state_def split: settlement.splits option.splits)
  then show ?thesis
    by (simp add: fetcherSettles_inflight [OF assms] complete_def setError_def setError_state_def)
qed

theorem fetcher_undefined_is_rejected_witness:
  "inflight loadingWorld 0 = Some 0
   \<and> promises (fetcherSettles 0 (Fulfills None) loadingWorld) 0
       = Rejected (Some undefinedDataError)
   \<and> status (store (heap (fetcherSettles 0 (Fulfills None) loadingWorld) 0)) = Error"
proof -
  have h: "inflight loadingWorld 0 = Some 0"
    by (simp add: loadingWorld_simps)
  show ?thesis
    using h fetcher_undefined_is_rejected [OF h] by simp
qed


section \<open>The transform and unchanged data (C8)\<close>

text \<open>
  \<open>updateState\<close> decides with \<open>===\<close> whether the data have changed. When the data of the
  broadcast state are strictly equal to those of the previous state (both \<open>undefined\<close>, the
  same object, or the same primitive value other than \<open>NaN\<close>), no observer calls \<open>select\<close>,
  and the transformed data each observer publishes are the ones it published before.
\<close>

lemma broadcast_strictly_equal_data_does_not_call_select:
  assumes "strictEqualsOption (data (f (store (heap w a)))) (data (store (heap w a)))"
  shows "selectCalls (observers (setState a f w) ob) = selectCalls (observers w ob)
         \<and> obs_data (ostate (observers (setState a f w) ob)) = obs_data (ostate (observers w ob))"
  by (simp add: setState_def Let_def notify_same_data [OF assms])

text \<open>
  A new object is never strictly equal to the previous data, so a subscribed observer
  calls \<open>select\<close> on it, also when its content is the content of the previous data.
\<close>

lemma updateState_new_object_calls_select:
  assumes "data st = Some (Object r x)" and "data prev = Some (Object s y)" and "r \<noteq> s"
  shows "selectCalls (observers (updateState ob st (Some prev) w) ob)
           = selectCalls (observers w ob) @ [Object r x]"
  using assms by (simp add: updateState_def transformData_def Let_def)

text \<open>
  C8. The claim: a broadcast whose data are those of the previous broadcast does not make
  an observer call \<open>select\<close> again. The code means this (the comment in \<open>updateState\<close>: if
  the data has not changed, the transformed data is not recomputed) and misses one case:
  the test is \<open>===\<close>, and \<open>NaN === NaN\<close> is false. In the concrete run the fetcher of the
  observed entry resolves to \<open>NaN\<close> and the observer calls \<open>select\<close> once. A \<open>refetch\<close> then
  broadcasts the status \<open>loading\<close> with the data untouched, and the observer calls \<open>select\<close>
  a second time, on the same \<open>NaN\<close>.
\<close>

theorem select_called_again_for_untouched_NaN_data:
  "data (store (heap nanWorld 0)) = Some NotANumber
   \<and> listeners (heap nanWorld 0) = [ObserverListener 0]
   \<and> selectCalls (observers nanWorld 0) = [NotANumber]
   \<and> nanRefetchedWorld = snd (refetch 0 ''a'' ReturnsPromise nanWorld)
   \<and> data (store (heap nanRefetchedWorld 0)) = data (store (heap nanWorld 0))
   \<and> selectCalls (observers nanRefetchedWorld 0) = [NotANumber, NotANumber]
   \<and> length (selectCalls (observers nanRefetchedWorld 0))
       = length (selectCalls (observers nanWorld 0)) + 1"
proof -
  have step: "nanRefetchedWorld = snd (refetch 0 ''a'' ReturnsPromise nanWorld)"
    by (rule nanRefetchedWorld_def)
  have before: "data (store (heap nanWorld 0)) = Some NotANumber"
    "listeners (heap nanWorld 0) = [ObserverListener 0]"
    "selectCalls (observers nanWorld 0) = [NotANumber]"
    by (simp_all add: nanWorld_eq)
  have after: "data (store (heap nanRefetchedWorld 0)) = Some NotANumber"
    "selectCalls (observers nanRefetchedWorld 0) = [NotANumber, NotANumber]"
    by (simp_all add: nanRefetchedWorld_eq)
  show ?thesis
    unfolding before after using step by simp
qed


section \<open>Destroying an observer (C9)\<close>

text \<open>
  C9 as stated fails: the entry of the concrete run has one observer and the count 1. The
  first \<open>destroy\<close> brings the count to 0, and a second \<open>destroy\<close> of the same observer
  changes it again, to -1.
\<close>

theorem destroy_twice_counterexample:
  "usedCount (heap watchedWorld 0) = 1
   \<and> usedCount (heap (destroy 0 watchedWorld) 0) = 0
   \<and> usedCount (heap (destroy 0 (destroy 0 watchedWorld)) 0) = - 1"
proof -
  have "cache (observers watchedWorld 0) = 0" and "usedCount (heap watchedWorld 0) = 1"
    by (simp_all add: watchedWorld_eq)
  then show ?thesis by (simp add: destroy_def unmount_view)
qed

text \<open>
  C9, amended. \<open>destroy\<close> keeps no record of having run: every call performs \<open>unuse\<close> on
  the bound entry, calls the stored unsubscribe function and clears the refetch timer. So
  the count of the entry drops by one at every call, by two after two calls. The other two
  effects are idempotent: the first call removes the observer's listener from the entry's
  store and clears the refetch timer (it is no longer pending, and \<open>refetchTimeoutId\<close> is
  reset), and a second call leaves the entry's listeners and \<open>refetchTimeoutId\<close> as the
  first left them.
\<close>

theorem destroy_releases_at_every_call:
  "(let a = cache (observers w ob)
    in usedCount (heap (destroy ob w) a) = usedCount (heap w a) - 1
       \<and> usedCount (heap (destroy ob (destroy ob w)) a) = usedCount (heap w a) - 2
       \<and> listeners (heap (destroy ob w) a) =
           (case unsubscribeStore (observers w ob) of
              None \<Rightarrow> listeners (heap w a)
            | Some l \<Rightarrow> removeAll l (listeners (heap w a)))
       \<and> listeners (heap (destroy ob (destroy ob w)) a) = listeners (heap (destroy ob w) a)
       \<and> refetchTimeoutId (observers (destroy ob (destroy ob w)) ob)
           = refetchTimeoutId (observers (destroy ob w) ob)
       \<and> (\<forall>tid. refetchTimeoutId (observers w ob) = Some tid \<and> tid \<noteq> 0 \<longrightarrow>
             timers (destroy ob w) tid = None
             \<and> refetchTimeoutId (observers (destroy ob w) ob) = None))"
  by (auto simp: destroy_def Let_def unmount_view unmount_clears_refetch_timer split: option.splits)

theorem destroy_releases_at_every_call_witness:
  "refetchTimeoutId (observers pollingWorld 0) = Some 1
   \<and> cache (observers pollingWorld 0) = 0
   \<and> usedCount (heap pollingWorld 0) = 1
   \<and> listeners (heap pollingWorld 0) = [ObserverListener 0]
   \<and> usedCount (heap (destroy 0 pollingWorld) 0) = 0
   \<and> usedCount (heap (destroy 0 (destroy 0 pollingWorld)) 0) = - 1
   \<and> listeners (heap (destroy 0 pollingWorld) 0) = []
   \<and> listeners (heap (destroy 0 (destroy 0 pollingWorld)) 0) = []
   \<and> timers (destroy 0 pollingWorld) 1 = None
   \<and> refetchTimeoutId (observers (destroy 0 pollingWorld) 0) = None
   \<and> refetchTimeoutId (observers (destroy 0 (destroy 0 pollingWorld)) 0) = None"
proof -
  have facts: "refetchTimeoutId (observers pollingWorld 0) = Some 1"
    "cache (observers pollingWorld 0) = 0"
    "usedCount (heap pollingWorld 0) = 1"
    "listeners (heap pollingWorld 0) = [ObserverListener 0]"
    "unsubscribeStore (observers pollingWorld 0) = Some (ObserverListener 0)"
    by (simp_all add: pollingWorld_eq)
  note t = destroy_releases_at_every_call [of pollingWorld 0, unfolded Let_def facts(2)]
  from t facts(1) have timer: "timers (destroy 0 pollingWorld) 1 = None"
    and reset: "refetchTimeoutId (observers (destroy 0 pollingWorld) 0) = None"
    by simp_all
  from t facts reset timer show ?thesis by simp
qed


section \<open>The state an observer publishes at construction (C10)\<close>

text \<open>
  C10. After the constructor of an observer has run, whatever the world and the props, the
  state the observer publishes has \<open>data = undefined\<close> and \<open>isSuccess = false\<close>, and \<open>select\<close>
  has not been called, while \<open>originalData\<close> is the data of the entry the observer is bound
  to. In particular, when the table already holds an entry for the variables, the observer
  is bound to it and \<open>originalData\<close> is the data that entry had before the construction.
\<close>

theorem new_observer_publishes_no_transformed_data:
  "(let ob = fst (newQueryObserver hv cp call w);
        this = observers (snd (newQueryObserver hv cp call w)) ob
    in obs_data (ostate this) = None
       \<and> isSuccess (ostate this) = False
       \<and> selectCalls this = []
       \<and> originalData (ostate this) = data (store (heap (snd (newQueryObserver hv cp call w)) (cache this)))
       \<and> (\<forall>a. findCache hv (cp_variables cp) w = Some a \<longrightarrow>
             cache this = a \<and> originalData (ostate this) = data (store (heap w a))))"
proof (cases "findCache hv (cp_variables cp) w")
  case None
  then show ?thesis
    by (simp add: newQueryObserver_def findOrCreateCache_def createCache_def Let_def
          mount_initial_state mount_selectCalls)
next
  case (Some a)
  then show ?thesis
    by (simp add: newQueryObserver_def findOrCreateCache_def Let_def mount_initial_state
          mount_selectCalls)
qed

theorem new_observer_publishes_no_transformed_data_witness:
  "findCache (\<lambda>v. v) ''a'' successWorld = Some 0
   \<and> data (store (heap successWorld 0)) = Some (Object 1 [''Alice''])
   \<and> fst (newQueryObserver (\<lambda>v. v) watcherProps ReturnsPromise successWorld) = 0
   \<and> obs_data (ostate (observers watchedWorld 0)) = None
   \<and> isSuccess (ostate (observers watchedWorld 0)) = False
   \<and> originalData (ostate (observers watchedWorld 0)) = Some (Object 1 [''Alice''])"
proof -
  have h: "findCache (\<lambda>v. v) (cp_variables watcherProps) successWorld = Some 0"
    by (simp add: watcherProps_def successWorld_simps)
  have ob: "fst (newQueryObserver (\<lambda>v. v) watcherProps ReturnsPromise successWorld) = 0"
    by (simp add: newQueryObserver_found [OF h] successWorld_simps)
  note t = new_observer_publishes_no_transformed_data [of "\<lambda>v. v" watcherProps ReturnsPromise successWorld, unfolded Let_def ob,
      folded watchedWorld_def]
  from t h have "originalData (ostate (observers watchedWorld 0)) = data (store (heap successWorld 0))"
    by blast
  with t h ob show ?thesis
    by (simp add: successWorld_simps watcherProps_def)
qed

end
